theory Spec2Isabelle
  imports Complex_Main "HOL-Library.AList" "HOL-Library.Sublist"
begin

section \<open>Python values\<close>

text \<open>
  A Python \<open>str\<close> is a sequence of Unicode code points, and \<open>len\<close> counts code
  points, so a string is a list of code points. \<open>lit\<close> turns an ASCII literal of the
  source into such a list.
\<close>

type_synonym pystr = "nat list"

definition lit :: "string \<Rightarrow> pystr" where
  "lit s = map of_char s"

text \<open>
  \<open>str.isspace\<close> for one code point: the characters \<open>str.split()\<close> treats as
  separators (CPython's \<open>_PyUnicode_IsWhitespace\<close>).
\<close>

definition isspace :: "nat \<Rightarrow> bool" where
  "isspace c \<longleftrightarrow>
     (9 \<le> c \<and> c \<le> 13) \<or> (28 \<le> c \<and> c \<le> 32) \<or> c = 133 \<or> c = 160 \<or> c = 5760 \<or>
     (8192 \<le> c \<and> c \<le> 8202) \<or> c = 8232 \<or> c = 8233 \<or> c = 8239 \<or> c = 8287 \<or> c = 12288"

text \<open>
  A Python \<open>float\<close>: a finite value (\<open>Finite 0\<close> is \<open>0.0\<close>), the negative
  zero \<open>-0.0\<close>, the two infinities and \<open>nan\<close>. Both zeros are falsy, everything
  else, \<open>nan\<close> included, is truthy.
\<close>

datatype pyfloat = Finite rat | NegZero | PosInf | NegInf | NaN

text \<open>
  What \<open>r.json()\<close> returns: \<open>None\<close>, \<open>bool\<close>, \<open>int\<close>, \<open>float\<close>, \<open>str\<close>,
  \<open>list\<close> and \<open>dict\<close> (keys are strings, in the order received). A \<open>dict\<close> is an
  association list; lookups take the first binding of a key.
\<close>

datatype json =
    JNull
  | JBool bool
  | JInt int
  | JFloat pyfloat
  | JStr pystr
  | JList "json list"
  | JDict "(pystr \<times> json) list"

datatype py_error = AttributeError | TypeError | KeyError | OSError | UnicodeEncodeError

text \<open>Truth value testing, as \<open>if x\<close>, \<open>not x\<close> and \<open>x or y\<close> apply it.\<close>

fun truthy :: "json \<Rightarrow> bool" where
  "truthy JNull = False"
| "truthy (JBool b) = b"
| "truthy (JInt n) = (n \<noteq> 0)"
| "truthy (JFloat f) = (f \<noteq> Finite 0 \<and> f \<noteq> NegZero)"
| "truthy (JStr s) = (s \<noteq> [])"
| "truthy (JList xs) = (xs \<noteq> [])"
| "truthy (JDict kvs) = (kvs \<noteq> [])"

definition py_or :: "json \<Rightarrow> json \<Rightarrow> json" where
  "py_or a b = (if truthy a then a else b)"

text \<open>\<open>d.get(k)\<close> and \<open>d.get(k, default)\<close> on a \<open>dict\<close>.\<close>

definition dict_get_default :: "(pystr \<times> json) list \<Rightarrow> pystr \<Rightarrow> json \<Rightarrow> json" where
  "dict_get_default kvs k dflt = (case map_of kvs k of None \<Rightarrow> dflt | Some v \<Rightarrow> v)"

definition dict_get :: "(pystr \<times> json) list \<Rightarrow> pystr \<Rightarrow> json" where
  "dict_get kvs k = dict_get_default kvs k JNull"

text \<open>
  Looking up the attribute \<open>get\<close> on a value: only a \<open>dict\<close> has it, every other
  decoded value raises \<open>AttributeError\<close>.
\<close>

fun get_method :: "json \<Rightarrow> py_error + (pystr \<times> json) list" where
  "get_method (JDict kvs) = Inr kvs"
| "get_method _ = Inl AttributeError"

text \<open>\<open>k in v\<close> for a string \<open>k\<close>.\<close>

fun py_contains :: "json \<Rightarrow> pystr \<Rightarrow> py_error + bool" where
  "py_contains (JDict kvs) k = Inr (k \<in> set (map fst kvs))"
| "py_contains (JList xs) k = Inr (JStr k \<in> set xs)"
| "py_contains (JStr s) k = Inr (sublist k s)"
| "py_contains _ k = Inl TypeError"

text \<open>\<open>v[k]\<close> for a string \<open>k\<close>.\<close>

fun py_getitem :: "json \<Rightarrow> pystr \<Rightarrow> py_error + json" where
  "py_getitem (JDict kvs) k = (case map_of kvs k of None \<Rightarrow> Inl KeyError | Some v \<Rightarrow> Inr v)"
| "py_getitem _ k = Inl TypeError"

section \<open>extract_web_results\<close>

text \<open>\<open>x.get("results", []) or []\<close>\<close>

definition results_or_empty :: "json \<Rightarrow> py_error + json" where
  "results_or_empty x =
     (case get_method x of
        Inl e \<Rightarrow> Inl e
      | Inr kvs \<Rightarrow> Inr (py_or (dict_get_default kvs (lit ''results'') (JList [])) (JList [])))"

definition extract_web_results :: "json \<Rightarrow> py_error + json" where
  "extract_web_results resp_json =
     (case py_contains resp_json (lit ''web'') of
        Inl e \<Rightarrow> Inl e
      | Inr False \<Rightarrow> results_or_empty resp_json
      | Inr True \<Rightarrow>
          (case py_getitem resp_json (lit ''web'') of
             Inl e \<Rightarrow> Inl e
           | Inr (JDict inner) \<Rightarrow> results_or_empty (JDict inner)
           | Inr _ \<Rightarrow> results_or_empty resp_json))"

text \<open>
  The extraction rule in the words of the specification, with the default as the code
  applies it: the \<open>results\<close> field of a document, or the empty list when the field is
  absent or falsy.
\<close>

definition results_field :: "(pystr \<times> json) list \<Rightarrow> json" where
  "results_field doc =
     (case map_of doc (lit ''results'') of
        None \<Rightarrow> JList []
      | Some v \<Rightarrow> if truthy v then v else JList [])"

definition extraction_rule :: "(pystr \<times> json) list \<Rightarrow> json" where
  "extraction_rule doc =
     (case map_of doc (lit ''web'') of
        Some (JDict inner) \<Rightarrow> results_field inner
      | _ \<Rightarrow> results_field doc)"

section \<open>build_params\<close>

text \<open>
  The namespace \<open>parse_args\<close> returns. \<open>freshness\<close> and \<open>save\<close> have no default
  and are \<open>None\<close> unless given.
\<close>

record args =
  q :: pystr
  count :: int
  offset :: int
  country :: pystr
  lang :: pystr
  safesearch :: int
  freshness :: "pystr option"
  spellcheck :: int
  extra_snippets :: int
  summary :: int
  json :: bool
  table :: bool
  timeout :: pyfloat
  save :: "pystr option"

datatype param = PStr pystr | PInt int

definition SAFES_SEARCH_MAP :: "(int \<times> pystr) list" where
  "SAFES_SEARCH_MAP = [(0, lit ''off''), (1, lit ''moderate''), (2, lit ''strict'')]"

text \<open>
  The parameter dictionary, in insertion order. \<open>params[k] = v\<close> is \<open>AList.update\<close>:
  it replaces the value of a key that is there and appends a new key.
\<close>

definition build_params :: "args \<Rightarrow> (pystr \<times> param) list" where
  "build_params a =
     (let p0 = [(lit ''q'', PStr (q a)),
                (lit ''count'', PInt (count a)),
                (lit ''offset'', PInt (offset a)),
                (lit ''country'', PStr (country a)),
                (lit ''search_lang'', PStr (lang a)),
                (lit ''safesearch'',
                   PStr (case map_of SAFES_SEARCH_MAP (safesearch a) of
                           Some tok \<Rightarrow> tok | None \<Rightarrow> lit ''off'')),
                (lit ''spellcheck'', PInt (spellcheck a))];
          p1 = (case freshness a of
                  None \<Rightarrow> p0
                | Some f \<Rightarrow> if f \<noteq> [] then AList.update (lit ''freshness'') (PStr f) p0 else p0);
          p2 = (if extra_snippets a \<noteq> 0
                then AList.update (lit ''extra_snippets'') (PInt 1) p1 else p1);
          p3 = (if summary a \<noteq> 0
                then AList.update (lit ''summary'') (PInt 1) p2 else p2)
      in p3)"

section \<open>The world outside main.py\<close>

text \<open>
  One HTTP GET as \<open>requests.get\<close> receives it, and what comes back: an exception of
  the library (connection, DNS, timeout, ...; never an \<open>HTTPError\<close>, which only
  \<open>raise_for_status\<close> raises) with its text, or a response. \<open>json_body\<close> is what
  \<open>r.json()\<close> does: the decoded document, or the text of the decoding error.
\<close>

record request =
  get_url :: pystr
  get_headers :: "(pystr \<times> pystr) list"
  get_params :: "(pystr \<times> param) list"
  get_timeout :: pyfloat

record response =
  status_code :: nat
  reason :: pystr
  final_url :: pystr
  body_text :: pystr
  json_body :: "pystr + json"

datatype http_result = Raised pystr | Responded response

text \<open>
  The command line as \<open>argparse\<close> reads it: the occurrences in order, each the
  option string as typed (in full or abbreviated) with its argument, if it has one
  (\<open>--count 5\<close> and \<open>--count=5\<close> are the same occurrence). A token that is no option
  string, the separator \<open>--\<close> included, is an occurrence of its own.
\<close>

type_synonym occurrence = "pystr \<times> pystr option"

text \<open>
  Everything the program consults that is not in \<open>main.py\<close>: the environment, the
  command line, the network, the file system, and the library functions it calls
  (\<open>int\<close> and \<open>float\<close> on a string give \<open>None\<close> where Python raises
  \<open>ValueError\<close>; \<open>py_str\<close> is \<open>str()\<close> on a value that is not a string, which for a
  float is its \<open>repr\<close>; \<open>textwrap_fill text width\<close> is \<open>textwrap.fill\<close>;
  \<open>open_ok path\<close> says whether the file can be opened for writing; \<open>stdout_ok text\<close>
  says whether the encoding of the standard output can encode the text, so that
  \<open>print\<close> does not raise \<open>UnicodeEncodeError\<close>). Theorems hold for every world.
\<close>

record world =
  getenv :: "pystr \<Rightarrow> pystr option"
  argv :: "occurrence list"
  py_int :: "pystr \<Rightarrow> int option"
  py_float :: "pystr \<Rightarrow> pyfloat option"
  py_str :: "json \<Rightarrow> pystr"
  textwrap_fill :: "pystr \<Rightarrow> nat \<Rightarrow> pystr"
  requests_get :: "request \<Rightarrow> http_result"
  open_ok :: "pystr \<Rightarrow> bool"
  stdout_ok :: "pystr \<Rightarrow> bool"

section \<open>parse_args\<close>

datatype usage_error =
    Ambiguous_Option
  | Invalid_Value
  | Invalid_Choice
  | Expected_One_Argument
  | Ignored_Explicit_Argument
  | Missing_Required
  | Unrecognized_Arguments

datatype parse_exit = Help | Usage usage_error

text \<open>
  The argument of an option: \<open>type\<close> converts it (a \<open>ValueError\<close> is a usage error),
  then \<open>choices\<close>, when given, must contain the converted value.
\<close>

definition check_value :: "'a list option \<Rightarrow> 'a \<Rightarrow> usage_error + 'a" where
  "check_value choices v =
     (case choices of
        None \<Rightarrow> Inr v
      | Some cs \<Rightarrow> if v \<in> set cs then Inr v else Inl Invalid_Choice)"

definition get_value :: "(pystr \<Rightarrow> 'a option) \<Rightarrow> 'a list option \<Rightarrow> pystr \<Rightarrow> usage_error + 'a" where
  "get_value type choices s =
     (case type s of
        None \<Rightarrow> Inl Invalid_Value
      | Some v \<Rightarrow> check_value choices v)"

definition store :: "usage_error + 'a \<Rightarrow> ('a \<Rightarrow> args) \<Rightarrow> parse_exit + args" where
  "store r upd = (case r of Inl e \<Rightarrow> Inl (Usage e) | Inr v \<Rightarrow> Inr (upd v))"

definition store_true :: "pystr option \<Rightarrow> args \<Rightarrow> parse_exit + args" where
  "store_true arg a' =
     (case arg of None \<Rightarrow> Inr a' | Some _ \<Rightarrow> Inl (Usage Ignored_Explicit_Argument))"

text \<open>The defaults of the \<open>add_argument\<close> calls (\<open>q\<close> is required and has none).\<close>

definition defaults :: args where
  "defaults =
     \<lparr>q = [], count = 10, offset = 0, country = lit ''us'', lang = lit ''en'',
      safesearch = 0, freshness = None, spellcheck = 1, extra_snippets = 0, summary = 0,
      json = False, table = False, timeout = Finite 15, save = None\<rparr>"

definition option_strings :: "pystr list" where
  "option_strings =
     [lit ''-h'', lit ''--help'', lit ''--q'', lit ''--count'', lit ''--offset'',
      lit ''--country'', lit ''--lang'', lit ''--safesearch'', lit ''--freshness'',
      lit ''--spellcheck'', lit ''--extra_snippets'', lit ''--summary'', lit ''--json'',
      lit ''--table'', lit ''--timeout'', lit ''--save'']"

text \<open>
  Which option a typed option string stands for: itself when it is one of the parser's,
  else, when it starts with \<open>--\<close>, the one option string it is a prefix of. A prefix
  of several is ambiguous, which \<open>argparse\<close> reports for every token before the
  separator \<open>--\<close> ahead of running any action.
\<close>

datatype resolution = Known pystr | Ambiguous | Unknown

definition resolve :: "pystr \<Rightarrow> resolution" where
  "resolve opt =
     (if opt \<in> set option_strings then Known opt
      else if prefix (lit ''--'') opt then
        (case filter (prefix opt) option_strings of
           [] \<Rightarrow> Unknown
         | [full] \<Rightarrow> Known full
         | _ \<Rightarrow> Ambiguous)
      else Unknown)"

definition separator :: occurrence where
  "separator = (lit ''--'', None)"

definition ambiguous :: "occurrence list \<Rightarrow> bool" where
  "ambiguous cl =
     list_ex (\<lambda>oc. resolve (fst oc) = Ambiguous) (takeWhile (\<lambda>oc. oc \<noteq> separator) cl)"

text \<open>An occurrence that makes the parser print its help: a help option on its own.\<close>

definition asks_help :: "occurrence \<Rightarrow> bool" where
  "asks_help oc \<longleftrightarrow>
     snd oc = None
     \<and> (resolve (fst oc) = Known (lit ''-h'') \<or> resolve (fst oc) = Known (lit ''--help''))"

text \<open>One occurrence of an option of the parser, one line per \<open>add_argument\<close>.\<close>

definition take_action :: "world \<Rightarrow> args \<Rightarrow> pystr \<Rightarrow> pystr option \<Rightarrow> parse_exit + args" where
  "take_action w a opt arg =
     (if opt = lit ''-h'' \<or> opt = lit ''--help'' then
        (case arg of None \<Rightarrow> Inl Help | Some _ \<Rightarrow> Inl (Usage Ignored_Explicit_Argument))
      else if opt = lit ''--json'' then store_true arg (a\<lparr>json := True\<rparr>)
      else if opt = lit ''--table'' then store_true arg (a\<lparr>table := True\<rparr>)
      else
        (case arg of
           None \<Rightarrow> Inl (Usage Expected_One_Argument)
         | Some s \<Rightarrow>
             if opt = lit ''--q'' then Inr (a\<lparr>q := s\<rparr>)
             else if opt = lit ''--count'' then
               store (get_value (py_int w) None s) (\<lambda>v. a\<lparr>count := v\<rparr>)
             else if opt = lit ''--offset'' then
               store (get_value (py_int w) None s) (\<lambda>v. a\<lparr>offset := v\<rparr>)
             else if opt = lit ''--country'' then Inr (a\<lparr>country := s\<rparr>)
             else if opt = lit ''--lang'' then Inr (a\<lparr>lang := s\<rparr>)
             else if opt = lit ''--safesearch'' then
               store (get_value (py_int w) (Some [0, 1, 2]) s) (\<lambda>v. a\<lparr>safesearch := v\<rparr>)
             else if opt = lit ''--freshness'' then
               store (get_value Some (Some [lit ''pd'', lit ''pw'', lit ''pm'', lit ''py'']) s)
                 (\<lambda>v. a\<lparr>freshness := Some v\<rparr>)
             else if opt = lit ''--spellcheck'' then
               store (get_value (py_int w) (Some [0, 1]) s) (\<lambda>v. a\<lparr>spellcheck := v\<rparr>)
             else if opt = lit ''--extra_snippets'' then
               store (get_value (py_int w) (Some [0, 1]) s) (\<lambda>v. a\<lparr>extra_snippets := v\<rparr>)
             else if opt = lit ''--summary'' then
               store (get_value (py_int w) (Some [0, 1]) s) (\<lambda>v. a\<lparr>summary := v\<rparr>)
             else if opt = lit ''--timeout'' then
               store (get_value (py_float w) None s) (\<lambda>v. a\<lparr>timeout := v\<rparr>)
             else Inr (a\<lparr>save := Some s\<rparr>)))"

text \<open>
  The parser's loop over the occurrences: an error or \<open>--help\<close> ends it at once; what
  stands for no option is set aside, and so is everything after the separator \<open>--\<close>.
  At the end a missing \<open>--q\<close> is an error, then anything set aside is.
\<close>

record parse_state =
  namespace :: args
  seen_q :: bool
  extras :: bool

fun parse_loop :: "world \<Rightarrow> occurrence list \<Rightarrow> parse_state \<Rightarrow> parse_exit + parse_state" where
  "parse_loop w [] st = Inr st"
| "parse_loop w ((opt, arg) # rest) st =
     (if (opt, arg) = separator then Inr (if rest = [] then st else st\<lparr>extras := True\<rparr>)
      else
        (case resolve opt of
           Known full \<Rightarrow>
             (case take_action w (namespace st) full arg of
                Inl x \<Rightarrow> Inl x
              | Inr a' \<Rightarrow>
                  parse_loop w rest
                    (st\<lparr>namespace := a', seen_q := seen_q st \<or> full = lit ''--q''\<rparr>))
         | _ \<Rightarrow> parse_loop w rest (st\<lparr>extras := True\<rparr>)))"

definition parse_args :: "world \<Rightarrow> parse_exit + args" where
  "parse_args w =
     (if ambiguous (argv w) then Inl (Usage Ambiguous_Option)
      else
        (case parse_loop w (argv w) \<lparr>namespace = defaults, seen_q = False, extras = False\<rparr> of
           Inl x \<Rightarrow> Inl x
         | Inr st \<Rightarrow>
             if \<not> seen_q st then Inl (Usage Missing_Required)
             else if extras st then Inl (Usage Unrecognized_Arguments)
             else Inr (namespace st)))"

section \<open>compact_table\<close>

text \<open>
  \<open>s.split()\<close>: the maximal runs of characters that are not whitespace, in order.
  The first argument is the word read so far.
\<close>

fun split_from :: "pystr \<Rightarrow> pystr \<Rightarrow> pystr list" where
  "split_from cur [] = (if cur = [] then [] else [cur])"
| "split_from cur (c # cs) =
     (if isspace c then (if cur = [] then split_from [] cs else cur # split_from [] cs)
      else split_from (cur @ [c]) cs)"

definition str_split :: "pystr \<Rightarrow> pystr list" where
  "str_split s = split_from [] s"

text \<open>\<open>sep.join(parts)\<close>\<close>

fun str_join :: "pystr \<Rightarrow> pystr list \<Rightarrow> pystr" where
  "str_join sep [] = []"
| "str_join sep [x] = x"
| "str_join sep (x # y # ys) = x @ sep @ str_join sep (y # ys)"

text \<open>\<open>" ".join(snippet.split())\<close>\<close>

definition collapse :: "pystr \<Rightarrow> pystr" where
  "collapse snippet = str_join (lit '' '') (str_split snippet)"

text \<open>\<open>if len(snippet) > 160: snippet = snippet[:157] + "..."\<close>\<close>

definition shorten :: "pystr \<Rightarrow> pystr" where
  "shorten snippet = (if length snippet > 160 then take 157 snippet @ lit ''...'' else snippet)"

text \<open>
  Looking up the attribute \<open>split\<close> on a value: only a \<open>str\<close> has it among the decoded
  values.
\<close>

fun split_method :: "json \<Rightarrow> py_error + pystr" where
  "split_method (JStr s) = Inr s"
| "split_method _ = Inl AttributeError"

text \<open>The three fields of an item, with their fallbacks.\<close>

definition item_title :: "(pystr \<times> json) list \<Rightarrow> py_error + json" where
  "item_title item =
     (if truthy (dict_get item (lit ''title'')) then Inr (dict_get item (lit ''title''))
      else
        (case get_method (dict_get_default item (lit ''source'') (JDict [])) of
           Inl e \<Rightarrow> Inl e
         | Inr src \<Rightarrow> Inr (py_or (dict_get src (lit ''title'')) (JStr []))))"

definition item_url :: "(pystr \<times> json) list \<Rightarrow> json" where
  "item_url item =
     py_or (dict_get item (lit ''url'')) (py_or (dict_get item (lit ''link'')) (JStr []))"

definition item_snippet :: "(pystr \<times> json) list \<Rightarrow> json" where
  "item_snippet item =
     py_or (dict_get item (lit ''description''))
       (py_or (dict_get item (lit ''snippet'')) (JStr []))"

text \<open>Decimal digits of a number, and \<open>{i:>2}\<close>: right-aligned in two columns.\<close>

fun str_nat :: "nat \<Rightarrow> pystr" where
  "str_nat n = (if n < 10 then [48 + n] else str_nat (n div 10) @ [48 + n mod 10])"

definition rjust :: "nat \<Rightarrow> pystr \<Rightarrow> pystr" where
  "rjust width s = replicate (width - length s) 32 @ s"

text \<open>\<open>{v}\<close> in an f-string: a string as it is, \<open>str(v)\<close> for another value.\<close>

definition format_value :: "world \<Rightarrow> json \<Rightarrow> pystr" where
  "format_value w v = (case v of JStr s \<Rightarrow> s | _ \<Rightarrow> py_str w v)"

text \<open>The f-string of one block.\<close>

definition format_block :: "nat \<Rightarrow> pystr \<Rightarrow> pystr \<Rightarrow> pystr \<Rightarrow> pystr" where
  "format_block i title url wrapped =
     rjust 2 (str_nat i) @ lit ''. '' @ title @ lit ''\<newline>    '' @ url @ lit ''\<newline>    '' @ wrapped"

text \<open>The body of the loop, for the item with index \<open>i\<close>.\<close>

definition render_item :: "world \<Rightarrow> nat \<Rightarrow> json \<Rightarrow> py_error + pystr" where
  "render_item w i item =
     (case get_method item of
        Inl e \<Rightarrow> Inl e
      | Inr kvs \<Rightarrow>
          (case item_title kvs of
             Inl e \<Rightarrow> Inl e
           | Inr title \<Rightarrow>
               (case split_method (item_snippet kvs) of
                  Inl e \<Rightarrow> Inl e
                | Inr snippet \<Rightarrow>
                    Inr (format_block i (format_value w title) (format_value w (item_url kvs))
                          (textwrap_fill w (shorten (collapse snippet)) 92)))))"

fun table_lines :: "world \<Rightarrow> nat \<Rightarrow> json list \<Rightarrow> py_error + pystr list" where
  "table_lines w i [] = Inr []"
| "table_lines w i (item # rest) =
     (case render_item w i item of
        Inl e \<Rightarrow> Inl e
      | Inr l \<Rightarrow>
          (case table_lines w (Suc i) rest of
             Inl e \<Rightarrow> Inl e
           | Inr ls \<Rightarrow> Inr (l # ls)))"

text \<open>
  What a \<open>for\<close> loop iterates over: the elements of a list, the keys of a dict, the
  characters of a string; another value is not iterable.
\<close>

fun py_iter :: "json \<Rightarrow> py_error + json list" where
  "py_iter (JList xs) = Inr xs"
| "py_iter (JDict kvs) = Inr (map (\<lambda>kv. JStr (fst kv)) kvs)"
| "py_iter (JStr s) = Inr (map (\<lambda>c. JStr [c]) s)"
| "py_iter _ = Inl TypeError"

definition compact_table :: "world \<Rightarrow> json \<Rightarrow> py_error + pystr" where
  "compact_table w web_results =
     (case py_iter web_results of
        Inl e \<Rightarrow> Inl e
      | Inr items \<Rightarrow>
          (case table_lines w 1 items of
             Inl e \<Rightarrow> Inl e
           | Inr lines \<Rightarrow> Inr (str_join (lit ''\<newline>'') lines)))"

section \<open>json.dumps\<close>

text \<open>
  \<open>json.dumps(v, ensure_ascii=False, indent=indent)\<close>, the only way the program calls
  it. In a string the quote, the backslash and the control characters below 32 are
  escaped and every other code point is written as it is. A container that is not empty
  puts each element on a line of its own, indented by \<open>indent\<close> spaces per level of
  nesting. A finite float is written as its \<open>repr\<close>.
\<close>

definition str_int :: "int \<Rightarrow> pystr" where
  "str_int n = (if n < 0 then 45 # str_nat (nat (- n)) else str_nat (nat n))"

definition hex_digit :: "nat \<Rightarrow> nat" where
  "hex_digit d = (if d < 10 then 48 + d else 87 + d)"

definition escape_char :: "nat \<Rightarrow> pystr" where
  "escape_char c =
     (if c = 34 then [92, 34] else if c = 92 then [92, 92]
      else if c = 10 then [92, 110] else if c = 13 then [92, 114]
      else if c = 9 then [92, 116] else if c = 8 then [92, 98]
      else if c = 12 then [92, 102]
      else if c < 32 then [92, 117, 48, 48, hex_digit (c div 16), hex_digit (c mod 16)]
      else [c])"

definition encode_str :: "pystr \<Rightarrow> pystr" where
  "encode_str s = [34] @ concat (map escape_char s) @ [34]"

definition newline_indent :: "nat \<Rightarrow> nat \<Rightarrow> pystr" where
  "newline_indent indent level = 10 # replicate (indent * level) 32"

fun encode :: "world \<Rightarrow> nat \<Rightarrow> nat \<Rightarrow> json \<Rightarrow> pystr" where
  "encode w indent level JNull = lit ''null''"
| "encode w indent level (JBool b) = (if b then lit ''true'' else lit ''false'')"
| "encode w indent level (JInt n) = str_int n"
| "encode w indent level (JFloat f) =
     (case f of
        Finite r \<Rightarrow> py_str w (JFloat f)
      | NegZero \<Rightarrow> py_str w (JFloat f)
      | PosInf \<Rightarrow> lit ''Infinity''
      | NegInf \<Rightarrow> lit ''-Infinity''
      | NaN \<Rightarrow> lit ''NaN'')"
| "encode w indent level (JStr s) = encode_str s"
| "encode w indent level (JList xs) =
     (if xs = [] then lit ''[]''
      else lit ''['' @ newline_indent indent (Suc level)
        @ str_join (lit '','' @ newline_indent indent (Suc level))
            (map (encode w indent (Suc level)) xs)
        @ newline_indent indent level @ lit '']'')"
| "encode w indent level (JDict kvs) =
     (if kvs = [] then lit ''{}''
      else lit ''{'' @ newline_indent indent (Suc level)
        @ str_join (lit '','' @ newline_indent indent (Suc level))
            (map (\<lambda>kv. encode_str (fst kv) @ lit '': '' @ encode w indent (Suc level) (snd kv))
               kvs)
        @ newline_indent indent level @ lit ''}'')"

definition json_dumps :: "world \<Rightarrow> nat \<Rightarrow> json \<Rightarrow> pystr" where
  "json_dumps w indent v = encode w indent 0 v"

section \<open>main\<close>

text \<open>
  What a run does to the outside, in order, and its exit code. Each \<open>Stdout\<close> and
  \<open>Stderr\<close> is one \<open>print\<close>. \<open>Usage_Message\<close> and \<open>Help_Message\<close> are what
  \<open>argparse\<close> prints itself, \<open>Traceback\<close> an exception nothing catches (exit code 1).
  \<open>File_Write path encoding content\<close> is the file opened for writing and written;
  \<open>File_Partial path encoding\<close> is the file opened for writing and left with only a
  beginning of the text, the write having raised.
\<close>

datatype event =
    Stdout pystr
  | Stderr pystr
  | Usage_Message usage_error
  | Help_Message
  | Http_Get request
  | File_Write pystr pystr pystr
  | File_Partial pystr pystr
  | Traceback py_error

definition API_URL :: pystr where
  "API_URL = lit ''https://api.search.brave.com/res/v1/web/search''"

text \<open>
  \<open>Response.raise_for_status\<close> of the \<open>requests\<close> library: the message of the
  \<open>HTTPError\<close> it raises, or \<open>None\<close> when it returns.
\<close>

definition raise_for_status :: "response \<Rightarrow> pystr option" where
  "raise_for_status r =
     (if 400 \<le> status_code r \<and> status_code r < 500 then
        Some (str_nat (status_code r) @ lit '' Client Error: '' @ reason r
              @ lit '' for url: '' @ final_url r)
      else if 500 \<le> status_code r \<and> status_code r < 600 then
        Some (str_nat (status_code r) @ lit '' Server Error: '' @ reason r
              @ lit '' for url: '' @ final_url r)
      else None)"

text \<open>
  The \<open>try\<close> block: the decoded document, or the exit code and the line printed to
  the error stream.
\<close>

definition fetch :: "world \<Rightarrow> request \<Rightarrow> (nat \<times> pystr) + json" where
  "fetch w req =
     (case requests_get w req of
        Raised msg \<Rightarrow> Inl (3, lit ''Request failed: '' @ msg)
      | Responded r \<Rightarrow>
          (case raise_for_status r of
             Some msg \<Rightarrow> Inl (2, lit ''HTTP error: '' @ msg @ lit '' - '' @ body_text r)
           | None \<Rightarrow>
               (case json_body r of
                  Inl msg \<Rightarrow> Inl (3, lit ''Request failed: '' @ msg)
                | Inr data \<Rightarrow> Inr data)))"

text \<open>
  What the \<open>utf-8\<close> codec (with strict errors, as \<open>open\<close> sets it up) can encode:
  every text without a surrogate code point.
\<close>

definition utf8_encodable :: "pystr \<Rightarrow> bool" where
  "utf8_encodable s = list_all (\<lambda>c. c < 55296 \<or> 57343 < c) s"

text \<open>
  \<open>if args.save: ...\<close>: the events, and whether the run goes on. \<open>json.dump\<close>
  writes the text of \<open>json.dumps\<close> piece by piece, and raises at the first piece the
  file's encoding cannot encode.
\<close>

definition save_response :: "world \<Rightarrow> args \<Rightarrow> json \<Rightarrow> event list \<times> bool" where
  "save_response w a data =
     (case save a of
        None \<Rightarrow> ([], True)
      | Some path \<Rightarrow>
          if path = [] then ([], True)
          else if \<not> open_ok w path then ([Traceback OSError], False)
          else if utf8_encodable (json_dumps w 2 data) then
            ([File_Write path (lit ''utf-8'') (json_dumps w 2 data)], True)
          else ([File_Partial path (lit ''utf-8''), Traceback UnicodeEncodeError], False))"

text \<open>
  \<open>print(text)\<close> followed by the rest of the program: when the standard output
  cannot encode the text, nothing is printed and the run ends with the exception.
\<close>

definition say :: "world \<Rightarrow> pystr \<Rightarrow> event list \<times> nat \<Rightarrow> event list \<times> nat" where
  "say w line rest =
     (if stdout_ok w line then (Stdout line # fst rest, snd rest)
      else ([Traceback UnicodeEncodeError], 1))"

text \<open>\<open>if args.table: ...\<close>: what table mode prints, and the exit code.\<close>

definition table_stage :: "world \<Rightarrow> json \<Rightarrow> event list \<times> nat" where
  "table_stage w data =
     (case extract_web_results data of
        Inl e \<Rightarrow> ([Traceback e], 1)
      | Inr results \<Rightarrow>
          if \<not> truthy results then say w (lit ''No web results in response'') ([], 0)
          else
            (case compact_table w results of
               Inl e \<Rightarrow> ([Traceback e], 1)
             | Inr t \<Rightarrow> say w t ([], 0)))"

text \<open>The two output blocks of \<open>main\<close>.\<close>

definition render :: "world \<Rightarrow> args \<Rightarrow> json \<Rightarrow> event list \<times> nat" where
  "render w a data =
     (let table_block = (if table a then table_stage w data else ([], 0))
      in if json a \<or> \<not> table a then
           say w (json_dumps w 2 data)
             (if table a then say w (lit ''\<newline>---\<newline>'') table_block else table_block)
         else table_block)"

definition the_request :: "pystr \<Rightarrow> args \<Rightarrow> request" where
  "the_request api_key a =
     \<lparr>get_url = API_URL,
      get_headers = [(lit ''X-Subscription-Token'', api_key),
                     (lit ''Accept'', lit ''application/json'')],
      get_params = build_params a,
      get_timeout = timeout a\<rparr>"

definition main :: "world \<Rightarrow> event list \<times> nat" where
  "main w =
     (case getenv w (lit ''BRAVE_SEARCH_API_KEY'') of
        None \<Rightarrow> ([Stderr (lit ''Error: BRAVE_SEARCH_API_KEY is not set'')], 1)
      | Some api_key \<Rightarrow>
          if api_key = [] then ([Stderr (lit ''Error: BRAVE_SEARCH_API_KEY is not set'')], 1)
          else
            (case parse_args w of
               Inl Help \<Rightarrow> ([Help_Message], 0)
             | Inl (Usage e) \<Rightarrow> ([Usage_Message e], 2)
             | Inr a \<Rightarrow>
                 (case fetch w (the_request api_key a) of
                    Inl (code, msg) \<Rightarrow> ([Http_Get (the_request api_key a), Stderr msg], code)
                  | Inr data \<Rightarrow>
                      (case save_response w a data of
                         (saved, False) \<Rightarrow> (Http_Get (the_request api_key a) # saved, 1)
                       | (saved, True) \<Rightarrow>
                           (Http_Get (the_request api_key a) # saved @ fst (render w a data),
                            snd (render w a data))))))"

section \<open>A mock world\<close>

text \<open>
  A world to run the program in: the key is set, the command line is
  \<open>--q test --table\<close>, the API answers 200 with the document
  \<open>{"web": {"results": [{"title": "T", "url": "http://x", "description": "d"}]}}\<close>,
  every file can be written and the standard output is UTF-8. Its library functions
  are stand-ins that agree with Python on the inputs used with them here: \<open>int\<close> and \<open>float\<close> read plain decimal
  digits with an optional minus sign, \<open>str\<close> is right on \<open>None\<close>, booleans and
  integers, and \<open>textwrap.fill\<close> is right on a collapsed text that fits the width,
  which it returns as it is, and on a single word without hyphens of at most twice the
  width, which it breaks after \<open>width\<close> characters.
\<close>

fun digits_value :: "nat \<Rightarrow> pystr \<Rightarrow> nat option" where
  "digits_value acc [] = Some acc"
| "digits_value acc (c # cs) =
     (if 48 \<le> c \<and> c \<le> 57 then digits_value (10 * acc + (c - 48)) cs else None)"

definition decimal_int :: "pystr \<Rightarrow> int option" where
  "decimal_int s =
     (case s of
        [] \<Rightarrow> None
      | c # cs \<Rightarrow>
          if c = 45 then (if cs = [] then None else map_option (\<lambda>n. - int n) (digits_value 0 cs))
          else map_option int (digits_value 0 s))"

definition decimal_float :: "pystr \<Rightarrow> pyfloat option" where
  "decimal_float s = map_option (\<lambda>n. Finite (of_int n)) (decimal_int s)"

definition simple_fill :: "pystr \<Rightarrow> nat \<Rightarrow> pystr" where
  "simple_fill s width =
     (if length s \<le> width then s else take width s @ lit ''\<newline>'' @ drop width s)"

definition simple_str :: "json \<Rightarrow> pystr" where
  "simple_str v =
     (case v of
        JNull \<Rightarrow> lit ''None''
      | JBool b \<Rightarrow> (if b then lit ''True'' else lit ''False'')
      | JInt n \<Rightarrow> str_int n
      | _ \<Rightarrow> [])"

definition mock_item :: json where
  "mock_item =
     JDict [(lit ''title'', JStr (lit ''T'')), (lit ''url'', JStr (lit ''http://x'')),
            (lit ''description'', JStr (lit ''d''))]"

definition mock_data :: json where
  "mock_data = JDict [(lit ''web'', JDict [(lit ''results'', JList [mock_item])])]"

definition mock_response :: response where
  "mock_response =
     \<lparr>status_code = 200, reason = lit ''OK'', final_url = API_URL, body_text = [],
      json_body = Inr mock_data\<rparr>"

definition mock_world :: world where
  "mock_world =
     \<lparr>getenv = (\<lambda>name. if name = lit ''BRAVE_SEARCH_API_KEY'' then Some (lit ''secret'') else None),
      argv = [(lit ''--q'', Some (lit ''test'')), (lit ''--table'', None)],
      py_int = decimal_int,
      py_float = decimal_float,
      py_str = simple_str,
      textwrap_fill = simple_fill,
      requests_get = (\<lambda>req. Responded mock_response),
      open_ok = (\<lambda>path. True),
      stdout_ok = utf8_encodable\<rparr>"

text \<open>
  Variations of the mock world: the API answers 401; the API answers with the status
  600; the command line has no \<open>--q\<close>.
\<close>

definition unauthorized_world :: world where
  "unauthorized_world =
     mock_world\<lparr>requests_get := (\<lambda>req. Responded
       \<lparr>status_code = 401, reason = lit ''Unauthorized'', final_url = API_URL,
        body_text = lit ''denied'', json_body = Inl (lit ''Expecting value'')\<rparr>)\<rparr>"

definition status_600_world :: world where
  "status_600_world =
     mock_world\<lparr>requests_get := (\<lambda>req. Responded (mock_response\<lparr>status_code := 600\<rparr>))\<rparr>"

definition no_query_world :: world where
  "no_query_world = mock_world\<lparr>argv := [(lit ''--table'', None)]\<rparr>"



text \<open>
  The mock world with the command lines \<open>--q test --safesearch 2\<close>,
  \<open>--q test --safesearch 3 --help\<close> and \<open>--help --safesearch 3\<close>.
\<close>

definition strict_world :: world where
  "strict_world =
     mock_world\<lparr>argv := [(lit ''--q'', Some (lit ''test'')),
                          (lit ''--safesearch'', Some (lit ''2''))]\<rparr>"

definition bad_level_world :: world where
  "bad_level_world =
     mock_world\<lparr>argv := [(lit ''--q'', Some (lit ''test'')),
                          (lit ''--safesearch'', Some (lit ''3'')), (lit ''--help'', None)]\<rparr>"

definition help_first_world :: world where
  "help_first_world =
     mock_world\<lparr>argv := [(lit ''--help'', None), (lit ''--safesearch'', Some (lit ''3''))]\<rparr>"





text \<open>
  Items with a long description: a single word of 200 characters; a 200-character text
  made of two letters with 198 spaces between them; a single word of 100 characters.
\<close>

definition described_item :: "pystr \<Rightarrow> json" where
  "described_item s =
     JDict [(lit ''title'', JStr (lit ''T'')), (lit ''url'', JStr (lit ''http://x'')),
            (lit ''description'', JStr s)]"

definition long_word :: pystr where
  "long_word = replicate 200 120"

definition spaced_text :: pystr where
  "spaced_text = [120] @ replicate 198 32 @ [121]"

definition wide_word :: pystr where
  "wide_word = replicate 100 120"

text \<open>
  The number of lines a text takes when it is printed: one more than its newline
  characters.
\<close>

definition newlines :: "pystr \<Rightarrow> nat" where
  "newlines s = length (filter (\<lambda>c. c = 10) s)"

definition line_count :: "pystr \<Rightarrow> nat" where
  "line_count s = Suc (newlines s)"

text \<open>The mock world in which the API answers with the document \<open>{}\<close>.\<close>

definition empty_world :: world where
  "empty_world =
     mock_world\<lparr>requests_get :=
       (\<lambda>req. Responded (mock_response\<lparr>json_body := Inr (JDict [])\<rparr>))\<rparr>"

section \<open>Properties of extract_web_results\<close>

lemma map_of_in_keys: "k \<in> fst ` set kvs \<longleftrightarrow> map_of kvs k \<noteq> None"
  by (simp add: map_of_eq_None_iff)

lemma results_or_empty_dict:
  "results_or_empty (JDict kvs) = Inr (results_field kvs)"
  by (simp add: results_or_empty_def results_field_def dict_get_default_def py_or_def
      split: option.splits)

lemma extract_web_results_dict:
  "extract_web_results (JDict doc) = Inr (extraction_rule doc)"
proof (cases "map_of doc (lit ''web'')")
  case None
  then have "lit ''web'' \<notin> fst ` set doc"
    by (simp add: map_of_in_keys)
  with None show ?thesis
    by (simp add: extract_web_results_def extraction_rule_def results_or_empty_dict)
next
  case (Some w)
  then have "lit ''web'' \<in> fst ` set doc"
    by (simp add: map_of_in_keys)
  with Some show ?thesis
    by (cases w)
      (simp_all add: extract_web_results_def extraction_rule_def results_or_empty_dict)
qed

text \<open>
  C2. For every response document the code returns the \<open>results\<close> field of the inner
  \<open>web\<close> document when \<open>web\<close> is a document, and of the top-level document
  otherwise; the empty list stands in when the field is absent or falsy, and a truthy
  value is returned as it is, list or not. \<open>{"web": {"results": [A]}}\<close> gives \<open>[A]\<close>,
  \<open>{"results": [B]}\<close> gives \<open>[B]\<close> and \<open>{}\<close> gives \<open>[]\<close>.
\<close>

theorem extract_web_results_rule:
  "extract_web_results (JDict doc) = Inr (extraction_rule doc)
   \<and> extract_web_results (JDict [(lit ''web'', JDict [(lit ''results'', JList [A])])])
       = Inr (JList [A])
   \<and> extract_web_results (JDict [(lit ''results'', JList [B])]) = Inr (JList [B])
   \<and> extract_web_results (JDict []) = Inr (JList [])"
  by (simp add: extract_web_results_dict extraction_rule_def results_field_def lit_def)

text \<open>
  The claim as stated fails: a \<open>results\<close> field that is not a list is not replaced by
  the empty list when it is truthy. \<open>{"results": "none"}\<close> gives the string back.
\<close>

theorem extract_web_results_not_list_counterexample:
  "extract_web_results (JDict [(lit ''results'', JStr (lit ''none''))]) = Inr (JStr (lit ''none''))
   \<and> JStr (lit ''none'') \<noteq> JList []"
  by (simp add: extract_web_results_dict extraction_rule_def results_field_def lit_def)

section \<open>Properties of build_params\<close>

lemma param_keys:
  "lit ''q'' = [113]"
  "lit ''count'' = [99, 111, 117, 110, 116]"
  "lit ''offset'' = [111, 102, 102, 115, 101, 116]"
  "lit ''country'' = [99, 111, 117, 110, 116, 114, 121]"
  "lit ''search_lang'' = [115, 101, 97, 114, 99, 104, 95, 108, 97, 110, 103]"
  "lit ''safesearch'' = [115, 97, 102, 101, 115, 101, 97, 114, 99, 104]"
  "lit ''spellcheck'' = [115, 112, 101, 108, 108, 99, 104, 101, 99, 107]"
  "lit ''freshness'' = [102, 114, 101, 115, 104, 110, 101, 115, 115]"
  "lit ''extra_snippets'' = [101, 120, 116, 114, 97, 95, 115, 110, 105, 112, 112, 101, 116, 115]"
  "lit ''summary'' = [115, 117, 109, 109, 97, 114, 121]"
  by (simp_all add: lit_def)

text \<open>The dictionary as a map: the seven fixed keys, then the three optional ones.\<close>

lemma map_of_build_params:
  "map_of (build_params a) =
     (map_of
        [(lit ''q'', PStr (q a)),
         (lit ''count'', PInt (count a)),
         (lit ''offset'', PInt (offset a)),
         (lit ''country'', PStr (country a)),
         (lit ''search_lang'', PStr (lang a)),
         (lit ''safesearch'',
            PStr (case map_of SAFES_SEARCH_MAP (safesearch a) of
                    Some tok \<Rightarrow> tok | None \<Rightarrow> lit ''off'')),
         (lit ''spellcheck'', PInt (spellcheck a))])
     (lit ''freshness'' :=
        (case freshness a of None \<Rightarrow> None | Some f \<Rightarrow> if f = [] then None else Some (PStr f)),
      lit ''extra_snippets'' := (if extra_snippets a = 0 then None else Some (PInt 1)),
      lit ''summary'' := (if summary a = 0 then None else Some (PInt 1)))"
  unfolding build_params_def Let_def
  by (cases "freshness a") (simp_all add: update_conv' param_keys fun_upd_twist)

text \<open>
  C3. In the mapping \<open>build_params\<close> returns, \<open>freshness\<close>, \<open>extra_snippets\<close> and
  \<open>summary\<close> have no binding at all when the option is absent or falsy (\<open>None\<close> or
  the empty string, and 0), and are bound when it is truthy; \<open>q\<close>, \<open>count\<close>,
  \<open>offset\<close>, \<open>country\<close>, \<open>search_lang\<close>, \<open>safesearch\<close> and \<open>spellcheck\<close> are
  always bound.
\<close>

theorem build_params_keys:
  "map_of (build_params a) (lit ''freshness'') =
     (case freshness a of None \<Rightarrow> None | Some f \<Rightarrow> if f = [] then None else Some (PStr f))
   \<and> map_of (build_params a) (lit ''extra_snippets'') =
     (if extra_snippets a = 0 then None else Some (PInt 1))
   \<and> map_of (build_params a) (lit ''summary'') =
     (if summary a = 0 then None else Some (PInt 1))
   \<and> map_of (build_params a) (lit ''q'') = Some (PStr (q a))
   \<and> map_of (build_params a) (lit ''count'') = Some (PInt (count a))
   \<and> map_of (build_params a) (lit ''offset'') = Some (PInt (offset a))
   \<and> map_of (build_params a) (lit ''country'') = Some (PStr (country a))
   \<and> map_of (build_params a) (lit ''search_lang'') = Some (PStr (lang a))
   \<and> map_of (build_params a) (lit ''safesearch'') =
       Some (PStr (case map_of SAFES_SEARCH_MAP (safesearch a) of
                     Some tok \<Rightarrow> tok | None \<Rightarrow> lit ''off''))
   \<and> map_of (build_params a) (lit ''spellcheck'') = Some (PInt (spellcheck a))"
  unfolding map_of_build_params by (simp add: param_keys)

text \<open>With the defaults of the parser none of the three optional keys is there.\<close>

theorem build_params_keys_witness:
  "map_of (build_params defaults) (lit ''freshness'') = None
   \<and> map_of (build_params defaults) (lit ''extra_snippets'') = None
   \<and> map_of (build_params defaults) (lit ''summary'') = None
   \<and> map_of (build_params (defaults\<lparr>freshness := Some (lit ''pd''), summary := 1\<rparr>))
         (lit ''freshness'') = Some (PStr (lit ''pd''))
   \<and> map_of (build_params (defaults\<lparr>freshness := Some (lit ''pd''), summary := 1\<rparr>))
         (lit ''summary'') = Some (PInt 1)
   \<and> map_of (build_params defaults) (lit ''safesearch'') = Some (PStr (lit ''off''))"
  using build_params_keys [of defaults]
    build_params_keys [of "defaults\<lparr>freshness := Some (lit ''pd''), summary := 1\<rparr>"]
  by (simp add: defaults_def SAFES_SEARCH_MAP_def lit_def)

section \<open>Properties of parse_args\<close>


lemma option_lits:
  "lit ''-h'' = [45, 104]"
  "lit ''--help'' = [45, 45, 104, 101, 108, 112]"
  "lit ''--q'' = [45, 45, 113]"
  "lit ''--count'' = [45, 45, 99, 111, 117, 110, 116]"
  "lit ''--offset'' = [45, 45, 111, 102, 102, 115, 101, 116]"
  "lit ''--country'' = [45, 45, 99, 111, 117, 110, 116, 114, 121]"
  "lit ''--lang'' = [45, 45, 108, 97, 110, 103]"
  "lit ''--safesearch'' = [45, 45, 115, 97, 102, 101, 115, 101, 97, 114, 99, 104]"
  "lit ''--freshness'' = [45, 45, 102, 114, 101, 115, 104, 110, 101, 115, 115]"
  "lit ''--spellcheck'' = [45, 45, 115, 112, 101, 108, 108, 99, 104, 101, 99, 107]"
  "lit ''--extra_snippets'' = [45, 45, 101, 120, 116, 114, 97, 95, 115, 110, 105, 112, 112, 101, 116, 115]"
  "lit ''--summary'' = [45, 45, 115, 117, 109, 109, 97, 114, 121]"
  "lit ''--json'' = [45, 45, 106, 115, 111, 110]"
  "lit ''--table'' = [45, 45, 116, 97, 98, 108, 101]"
  "lit ''--timeout'' = [45, 45, 116, 105, 109, 101, 111, 117, 116]"
  "lit ''--save'' = [45, 45, 115, 97, 118, 101]"
  by (simp_all add: lit_def)

lemma take_action_safesearch:
  assumes "take_action w a opt arg = Inr a'" and "safesearch a \<in> {0, 1, 2}"
  shows "safesearch a' \<in> {0, 1, 2}"
  using assms
  by (auto simp: take_action_def store_def store_true_def get_value_def check_value_def
      split: if_splits option.splits sum.splits)

lemma parse_loop_separator:
  "parse_loop w (separator # rest) st = Inr (if rest = [] then st else st\<lparr>extras := True\<rparr>)"
  by (simp add: separator_def)

lemma parse_loop_safesearch:
  "parse_loop w cl st = Inr st' \<Longrightarrow> safesearch (namespace st) \<in> {0, 1, 2}
   \<Longrightarrow> safesearch (namespace st') \<in> {0, 1, 2}"
proof (induction cl arbitrary: st)
  case Nil
  then show ?case by simp
next
  case (Cons oc cl)
  obtain opt arg where oc: "oc = (opt, arg)" by (cases oc)
  show ?case
  proof (cases "(opt, arg) = separator")
    case True
    with Cons.prems(1) oc have "st' = (if cl = [] then st else st\<lparr>extras := True\<rparr>)"
      by (simp add: parse_loop_separator)
    with Cons.prems(2) show ?thesis by simp
  next
    case False
    show ?thesis
    proof (cases "resolve opt")
      case (Known full)
      with Cons.prems oc False obtain a' where
        act: "take_action w (namespace st) full arg = Inr a'" and
        rest: "parse_loop w cl
                 (st\<lparr>namespace := a', seen_q := seen_q st \<or> full = lit ''--q''\<rparr>) = Inr st'"
        by (auto split: sum.splits)
      from take_action_safesearch [OF act Cons.prems(2)] Cons.IH [OF rest] show ?thesis by simp
    next
      case Ambiguous
      with Cons.prems oc False have "parse_loop w cl (st\<lparr>extras := True\<rparr>) = Inr st'" by simp
      from Cons.IH [OF this] Cons.prems(2) show ?thesis by simp
    next
      case Unknown
      with Cons.prems oc False have "parse_loop w cl (st\<lparr>extras := True\<rparr>) = Inr st'" by simp
      from Cons.IH [OF this] Cons.prems(2) show ?thesis by simp
    qed
  qed
qed

lemma parse_args_safesearch: "parse_args w = Inr a \<Longrightarrow> safesearch a \<in> {0, 1, 2}"
proof -
  assume p: "parse_args w = Inr a"
  then obtain st where
    "parse_loop w (argv w) \<lparr>namespace = defaults, seen_q = False, extras = False\<rparr> = Inr st"
    and "a = namespace st"
    by (auto simp: parse_args_def split: if_splits sum.splits)
  with parse_loop_safesearch [of w "argv w" _ st] show ?thesis
    by (simp add: defaults_def)
qed

lemma take_action_bad_safesearch:
  assumes "py_int w s \<notin> {Some 0, Some 1, Some 2}"
  shows "\<exists>e. take_action w a (lit ''--safesearch'') (Some s) = Inl (Usage e)"
  using assms
  by (auto simp: take_action_def option_lits store_def get_value_def check_value_def
      split: option.splits)

lemma take_action_Help:
  "take_action w a opt arg = Inl Help \<Longrightarrow> (opt = lit ''-h'' \<or> opt = lit ''--help'') \<and> arg = None"
  by (auto simp: take_action_def store_def store_true_def get_value_def check_value_def
      split: if_splits option.splits sum.splits)



text \<open>
  A \<open>--safesearch\<close> occurrence with an argument outside the three levels: the loop
  ends in an error or \<open>--help\<close> before or at it, or sets something aside.
\<close>

lemma parse_loop_rejects:
  assumes "resolve opt = Known (lit ''--safesearch'')"
    and "py_int w s \<notin> {Some 0, Some 1, Some 2}"
  shows "(\<exists>x. parse_loop w (pre @ (opt, Some s) # post) st = Inl x)
     \<or> (\<exists>st'. parse_loop w (pre @ (opt, Some s) # post) st = Inr st' \<and> extras st')"
proof (induction pre arbitrary: st)
  case Nil
  from take_action_bad_safesearch [OF assms(2), of "namespace st"] assms(1)
  show ?case by (auto simp: separator_def)
next
  case (Cons oc pre)
  obtain nm b where oc: "oc = (nm, b)" by (cases oc)
  show ?case
  proof (cases "(nm, b) = separator")
    case True
    with oc show ?thesis by (simp add: parse_loop_separator)
  next
    case False
    show ?thesis
    proof (cases "resolve nm")
      case (Known full)
      show ?thesis
      proof (cases "take_action w (namespace st) full b")
        case (Inl x)
        with Known oc False show ?thesis by simp
      next
        case (Inr a')
        with Known oc False
          Cons.IH [of "st\<lparr>namespace := a', seen_q := seen_q st \<or> full = lit ''--q''\<rparr>"]
        show ?thesis by simp
      qed
    next
      case Ambiguous
      with oc False Cons.IH [of "st\<lparr>extras := True\<rparr>"] show ?thesis by simp
    next
      case Unknown
      with oc False Cons.IH [of "st\<lparr>extras := True\<rparr>"] show ?thesis by simp
    qed
  qed
qed

lemma parse_loop_Help:
  assumes "resolve opt = Known (lit ''--safesearch'')"
    and "py_int w s \<notin> {Some 0, Some 1, Some 2}"
  shows "parse_loop w (pre @ (opt, Some s) # post) st = Inl Help \<Longrightarrow> list_ex asks_help pre"
proof (induction pre arbitrary: st)
  case Nil
  with take_action_bad_safesearch [OF assms(2), of "namespace st"] assms(1)
  show ?case by (auto simp: separator_def)
next
  case (Cons oc pre)
  obtain nm b where oc: "oc = (nm, b)" by (cases oc)
  show ?case
  proof (cases "(nm, b) = separator")
    case True
    with Cons.prems oc show ?thesis by (simp add: parse_loop_separator)
  next
    case False
    show ?thesis
    proof (cases "resolve nm")
      case (Known full)
      show ?thesis
      proof (cases "take_action w (namespace st) full b")
        case (Inl x)
        with Known oc False Cons.prems have "take_action w (namespace st) full b = Inl Help"
          by simp
        from take_action_Help [OF this] Known oc show ?thesis
          by (auto simp: asks_help_def)
      next
        case (Inr a')
        with Known oc False Cons.prems
        have "parse_loop w (pre @ (opt, Some s) # post)
                (st\<lparr>namespace := a', seen_q := seen_q st \<or> full = lit ''--q''\<rparr>) = Inl Help"
          by simp
        from Cons.IH [OF this] show ?thesis by simp
      qed
    next
      case Ambiguous
      with oc False Cons.prems
      have "parse_loop w (pre @ (opt, Some s) # post) (st\<lparr>extras := True\<rparr>) = Inl Help" by simp
      from Cons.IH [OF this] show ?thesis by simp
    next
      case Unknown
      with oc False Cons.prems
      have "parse_loop w (pre @ (opt, Some s) # post) (st\<lparr>extras := True\<rparr>) = Inl Help" by simp
      from Cons.IH [OF this] show ?thesis by simp
    qed
  qed
qed

lemma parse_args_rejects:
  assumes "argv w = pre @ (opt, Some s) # post"
    and "resolve opt = Known (lit ''--safesearch'')"
    and "py_int w s \<notin> {Some 0, Some 1, Some 2}"
  shows "\<exists>x. parse_args w = Inl x"
proof (cases "ambiguous (argv w)")
  case True
  then show ?thesis by (simp add: parse_args_def)
next
  case False
  from parse_loop_rejects [OF assms(2,3), of pre post
      "\<lparr>namespace = defaults, seen_q = False, extras = False\<rparr>"]
  show ?thesis
  proof
    assume "\<exists>x. parse_loop w (pre @ (opt, Some s) # post)
        \<lparr>namespace = defaults, seen_q = False, extras = False\<rparr> = Inl x"
    with False assms(1) show ?thesis by (auto simp: parse_args_def)
  next
    assume "\<exists>st'. parse_loop w (pre @ (opt, Some s) # post)
        \<lparr>namespace = defaults, seen_q = False, extras = False\<rparr> = Inr st' \<and> extras st'"
    with False assms(1) show ?thesis by (auto simp: parse_args_def)
  qed
qed

lemma parse_args_Help:
  assumes "argv w = pre @ (opt, Some s) # post"
    and "resolve opt = Known (lit ''--safesearch'')"
    and "py_int w s \<notin> {Some 0, Some 1, Some 2}"
    and "parse_args w = Inl Help"
  shows "list_ex asks_help pre"
proof -
  from assms(4) have
    "parse_loop w (argv w) \<lparr>namespace = defaults, seen_q = False, extras = False\<rparr> = Inl Help"
    by (auto simp: parse_args_def split: if_splits sum.splits)
  with assms(1) parse_loop_Help [OF assms(2,3)] show ?thesis by simp
qed

lemma main_no_request_unless_parsed:
  "parse_args w = Inl x \<Longrightarrow> Http_Get req \<notin> set (fst (main w))"
  by (cases x) (auto simp: main_def split: option.splits)

lemma safesearch_tokens:
  "map_of SAFES_SEARCH_MAP 0 = Some (lit ''off'')"
  "map_of SAFES_SEARCH_MAP 1 = Some (lit ''moderate'')"
  "map_of SAFES_SEARCH_MAP 2 = Some (lit ''strict'')"
  "dom (map_of SAFES_SEARCH_MAP) = {0, 1, 2}"
  by (auto simp: SAFES_SEARCH_MAP_def split: if_splits)

text \<open>
  Claim C7, as the code has it. The levels 0, 1 and 2 are translated by the fixed mapping
  0 to \<open>off\<close>, 1 to \<open>moderate\<close>, 2 to \<open>strict\<close>, which has no other key; every namespace that
  the parser returns holds one of the three levels, and the request parameter is the token of
  that level. A \<open>--safesearch\<close> occurrence (under its full name or an unambiguous
  abbreviation) whose argument is not read as 0, 1 or 2 never leads to a namespace and no
  request is sent. The parser then ends with a usage error, and the program with exit code 2,
  whenever no help option stands before the occurrence on the command line; the only other
  outcome is the help message, and then a help option does stand before it.
\<close>

theorem safesearch_levels:
  "map_of SAFES_SEARCH_MAP 0 = Some (lit ''off'')
   \<and> map_of SAFES_SEARCH_MAP 1 = Some (lit ''moderate'')
   \<and> map_of SAFES_SEARCH_MAP 2 = Some (lit ''strict'')
   \<and> dom (map_of SAFES_SEARCH_MAP) = {0, 1, 2}
   \<and> (parse_args w = Inr a \<longrightarrow>
        safesearch a \<in> {0, 1, 2}
        \<and> map_of (build_params a) (lit ''safesearch'')
            = map_option PStr (map_of SAFES_SEARCH_MAP (safesearch a)))
   \<and> (argv w = pre @ (opt, Some s) # post
        \<and> resolve opt = Known (lit ''--safesearch'')
        \<and> py_int w s \<notin> {Some 0, Some 1, Some 2} \<longrightarrow>
        (\<forall>a'. parse_args w \<noteq> Inr a')
        \<and> (\<forall>req. Http_Get req \<notin> set (fst (main w)))
        \<and> ((\<exists>e. parse_args w = Inl (Usage e))
            \<or> parse_args w = Inl Help \<and> list_ex asks_help pre)
        \<and> (\<not> list_ex asks_help pre \<longrightarrow>
            (\<exists>e. parse_args w = Inl (Usage e))
            \<and> (\<forall>api_key. getenv w (lit ''BRAVE_SEARCH_API_KEY'') = Some api_key
                  \<and> api_key \<noteq> [] \<longrightarrow> (\<exists>e. main w = ([Usage_Message e], 2)))))"
proof -
  have parsed: "safesearch a \<in> {0, 1, 2}
      \<and> map_of (build_params a) (lit ''safesearch'')
          = map_option PStr (map_of SAFES_SEARCH_MAP (safesearch a))"
    if "parse_args w = Inr a"
  proof -
    from parse_args_safesearch [OF that] have lvl: "safesearch a \<in> {0, 1, 2}" .
    then have "map_of SAFES_SEARCH_MAP (safesearch a) \<noteq> None"
      using safesearch_tokens(4) by blast
    then show ?thesis
      using lvl by (auto simp: map_of_build_params param_keys)
  qed
  have rejected: "(\<forall>a'. parse_args w \<noteq> Inr a')
        \<and> (\<forall>req. Http_Get req \<notin> set (fst (main w)))
        \<and> ((\<exists>e. parse_args w = Inl (Usage e))
            \<or> parse_args w = Inl Help \<and> list_ex asks_help pre)
        \<and> (\<not> list_ex asks_help pre \<longrightarrow>
            (\<exists>e. parse_args w = Inl (Usage e))
            \<and> (\<forall>api_key. getenv w (lit ''BRAVE_SEARCH_API_KEY'') = Some api_key
                  \<and> api_key \<noteq> [] \<longrightarrow> (\<exists>e. main w = ([Usage_Message e], 2))))"
    if occ: "argv w = pre @ (opt, Some s) # post"
      and res: "resolve opt = Known (lit ''--safesearch'')"
      and bad: "py_int w s \<notin> {Some 0, Some 1, Some 2}"
  proof -
    from parse_args_rejects [OF occ res bad] obtain x where x: "parse_args w = Inl x" by blast
    then have no_request: "\<forall>req. Http_Get req \<notin> set (fst (main w))"
      using main_no_request_unless_parsed by blast
    have either: "(\<exists>e. parse_args w = Inl (Usage e))
        \<or> parse_args w = Inl Help \<and> list_ex asks_help pre"
    proof (cases x)
      case Help
      with x parse_args_Help [OF occ res bad] show ?thesis by simp
    next
      case (Usage e)
      with x show ?thesis by simp
    qed
    have usage: "(\<exists>e. parse_args w = Inl (Usage e))
        \<and> (\<forall>api_key. getenv w (lit ''BRAVE_SEARCH_API_KEY'') = Some api_key
              \<and> api_key \<noteq> [] \<longrightarrow> (\<exists>e. main w = ([Usage_Message e], 2)))"
      if "\<not> list_ex asks_help pre"
    proof -
      from either that obtain e where e: "parse_args w = Inl (Usage e)" by blast
      then have "\<exists>e. main w = ([Usage_Message e], 2)"
        if "getenv w (lit ''BRAVE_SEARCH_API_KEY'') = Some api_key" "api_key \<noteq> []"
        for api_key
        using that by (simp add: main_def)
      with e show ?thesis by blast
    qed
    from x no_request either usage show ?thesis by simp
  qed
  show ?thesis
    apply (intro conjI)
         apply (rule safesearch_tokens(1))
        apply (rule safesearch_tokens(2))
       apply (rule safesearch_tokens(3))
      apply (rule safesearch_tokens(4))
     apply (rule impI, erule parsed)
    apply (rule impI, elim conjE, erule (2) rejected)
    done
qed

text \<open>
  \<open>--q test --safesearch 2\<close> parses and is sent as \<open>strict\<close>; in
  \<open>--q test --safesearch 3 --help\<close> the level is read before the help option, so it is an
  invalid choice and the run ends with exit code 2 and no request.
\<close>

theorem safesearch_levels_witness:
  "parse_args strict_world = Inr (defaults\<lparr>q := lit ''test'', safesearch := 2\<rparr>)
   \<and> map_of (build_params (defaults\<lparr>q := lit ''test'', safesearch := 2\<rparr>)) (lit ''safesearch'')
     = Some (PStr (lit ''strict''))
   \<and> argv bad_level_world
     = [(lit ''--q'', Some (lit ''test''))] @ (lit ''--safesearch'', Some (lit ''3''))
         # [(lit ''--help'', None)]
   \<and> parse_args bad_level_world = Inl (Usage Invalid_Choice)
   \<and> main bad_level_world = ([Usage_Message Invalid_Choice], 2)"
  using
    safesearch_levels [of strict_world "defaults\<lparr>q := lit ''test'', safesearch := 2\<rparr>"
      "[]" "lit ''--safesearch''" "lit ''3''" "[]"]
    safesearch_levels [of bad_level_world defaults "[(lit ''--q'', Some (lit ''test''))]"
      "lit ''--safesearch''" "lit ''3''" "[(lit ''--help'', None)]"]
  by (simp add: parse_args_def ambiguous_def separator_def resolve_def asks_help_def
      take_action_def store_def get_value_def check_value_def
      option_strings_def mock_world_def strict_world_def bad_level_world_def
      decimal_int_def defaults_def main_def lit_def SAFES_SEARCH_MAP_def)

text \<open>
  The claim as it was stated fails on \<open>--help --safesearch 3\<close>: the help option is read
  first, the parser prints the help and the program exits with code 0; the level 3 is never
  read and no usage error is reported.
\<close>

theorem safesearch_help_first_counterexample:
  "parse_args help_first_world = Inl Help \<and> main help_first_world = ([Help_Message], 0)"
  by (simp add: parse_args_def ambiguous_def separator_def resolve_def
      take_action_def option_strings_def mock_world_def help_first_world_def
      defaults_def main_def lit_def)

section \<open>Properties of main\<close>


lemma main_parsed:
  assumes "getenv w (lit ''BRAVE_SEARCH_API_KEY'') = Some k" and "k \<noteq> []"
    and "parse_args w = Inr a"
  shows "main w =
     (case fetch w (the_request k a) of
        Inl (code, msg) \<Rightarrow> ([Http_Get (the_request k a), Stderr msg], code)
      | Inr data \<Rightarrow>
          (case save_response w a data of
             (saved, False) \<Rightarrow> (Http_Get (the_request k a) # saved, 1)
           | (saved, True) \<Rightarrow>
               (Http_Get (the_request k a) # saved @ fst (render w a data),
                snd (render w a data))))"
  using assms by (simp add: main_def)

lemma say_exit:
  "snd rest = 0 \<or> snd rest = 1 \<Longrightarrow> snd (say w line rest) = 0 \<or> snd (say w line rest) = 1"
  by (simp add: say_def)

lemma say_no_file_write:
  "File_Write p e c \<notin> set (fst rest) \<Longrightarrow> File_Write p e c \<notin> set (fst (say w line rest))"
  by (simp add: say_def)

lemma table_stage_exit: "snd (table_stage w data) = 0 \<or> snd (table_stage w data) = 1"
  by (simp add: table_stage_def say_def split: sum.splits)

lemma render_exit: "snd (render w a data) = 0 \<or> snd (render w a data) = 1"
  using table_stage_exit [of w data] by (auto simp: render_def Let_def say_def)



lemma main_exit_after_fetch:
  assumes "getenv w (lit ''BRAVE_SEARCH_API_KEY'') = Some k" and "k \<noteq> []"
    and "parse_args w = Inr a" and "fetch w (the_request k a) = Inr data"
  shows "snd (main w) = 0 \<or> snd (main w) = 1"
proof -
  obtain saved ok where sv: "save_response w a data = (saved, ok)"
    by (cases "save_response w a data")
  show ?thesis
    using render_exit [of w a data]
    by (cases ok) (auto simp: main_parsed [OF assms(1-3)] assms(4) sv)
qed

text \<open>
  C6. When \<open>BRAVE_SEARCH_API_KEY\<close> is absent or empty the whole run is one line on the
  error stream and exit code 1, whatever the command line and the rest of the world:
  nothing of the parser is printed and no request is made.
\<close>

theorem missing_key_exits_first:
  "getenv w (lit ''BRAVE_SEARCH_API_KEY'') = None \<or> getenv w (lit ''BRAVE_SEARCH_API_KEY'') = Some []
   \<Longrightarrow> main w = ([Stderr (lit ''Error: BRAVE_SEARCH_API_KEY is not set'')], 1)"
  by (auto simp: main_def)

text \<open>
  With no key and the command line \<open>--count x\<close>, which the parser rejects, the run
  is still the missing-key error.
\<close>

theorem missing_key_exits_first_witness:
  "getenv (mock_world\<lparr>getenv := (\<lambda>name. None), argv := [(lit ''--count'', Some (lit ''x''))]\<rparr>)
      (lit ''BRAVE_SEARCH_API_KEY'') = None
   \<and> parse_args (mock_world\<lparr>getenv := (\<lambda>name. None), argv := [(lit ''--count'', Some (lit ''x''))]\<rparr>)
      = Inl (Usage Invalid_Value)
   \<and> main (mock_world\<lparr>getenv := (\<lambda>name. None), argv := [(lit ''--count'', Some (lit ''x''))]\<rparr>)
      = ([Stderr (lit ''Error: BRAVE_SEARCH_API_KEY is not set'')], 1)"
  using missing_key_exits_first
    [of "mock_world\<lparr>getenv := (\<lambda>name. None), argv := [(lit ''--count'', Some (lit ''x''))]\<rparr>"]
  by (simp add: parse_args_def ambiguous_def separator_def resolve_def take_action_def store_def get_value_def check_value_def
      option_strings_def mock_world_def decimal_int_def defaults_def lit_def)

lemma main_failed:
  assumes "getenv w (lit ''BRAVE_SEARCH_API_KEY'') = Some k" and "k \<noteq> []"
    and "parse_args w = Inr a" and "fetch w (the_request k a) = Inl (code, line)"
  shows "main w = ([Http_Get (the_request k a), Stderr line], code)"
  by (simp add: main_parsed [OF assms(1-3)] assms(4))

lemma raise_for_status_error:
  assumes "400 \<le> status_code r" and "status_code r < 600"
  shows "raise_for_status r =
     Some (str_nat (status_code r)
           @ (if status_code r < 500 then lit '' Client Error: '' else lit '' Server Error: '')
           @ reason r @ lit '' for url: '' @ final_url r)"
proof (cases "status_code r < 500")
  case True
  with assms show ?thesis unfolding raise_for_status_def by simp
next
  case False
  with assms show ?thesis unfolding raise_for_status_def by simp
qed

lemma raise_for_status_ok:
  "\<not> (400 \<le> status_code r \<and> status_code r < 600) \<Longrightarrow> raise_for_status r = None"
  unfolding raise_for_status_def by auto


lemma fetch_Raised:
  "requests_get w req = Raised msg \<Longrightarrow> fetch w req = Inl (3, lit ''Request failed: '' @ msg)"
  by (simp add: fetch_def)

lemma fetch_http_error:
  assumes "requests_get w req = Responded r"
    and "400 \<le> status_code r" and "status_code r < 600"
  shows "fetch w req =
     Inl (2, lit ''HTTP error: '' @ str_nat (status_code r)
             @ (if status_code r < 500 then lit '' Client Error: '' else lit '' Server Error: '')
             @ reason r @ lit '' for url: '' @ final_url r @ lit '' - '' @ body_text r)"
  by (simp add: fetch_def assms(1) raise_for_status_error [OF assms(2,3)])

lemma fetch_decode_error:
  assumes "requests_get w req = Responded r"
    and "\<not> (400 \<le> status_code r \<and> status_code r < 600)" and "json_body r = Inl msg"
  shows "fetch w req = Inl (3, lit ''Request failed: '' @ msg)"
  by (simp add: fetch_def assms(1) raise_for_status_ok [OF assms(2)] assms(3))

lemma fetch_decoded:
  assumes "requests_get w req = Responded r"
    and "\<not> (400 \<le> status_code r \<and> status_code r < 600)" and "json_body r = Inr data"
  shows "fetch w req = Inr data"
  by (simp add: fetch_def assms(1) raise_for_status_ok [OF assms(2)] assms(3))



text \<open>The exit code of a run whose arguments parsed, from what the request did.\<close>

lemma main_exit_code:
  assumes key: "getenv w (lit ''BRAVE_SEARCH_API_KEY'') = Some k" "k \<noteq> []"
    and args: "parse_args w = Inr a"
  shows "(snd (main w) = 2 \<longleftrightarrow>
           (\<exists>r'. requests_get w (the_request k a) = Responded r'
              \<and> 400 \<le> status_code r' \<and> status_code r' < 600))
      \<and> (snd (main w) = 3 \<longleftrightarrow>
           (\<exists>msg'. requests_get w (the_request k a) = Raised msg')
           \<or> (\<exists>r' msg'. requests_get w (the_request k a) = Responded r'
                \<and> \<not> (400 \<le> status_code r' \<and> status_code r' < 600)
                \<and> json_body r' = Inl msg'))"
proof (cases "requests_get w (the_request k a)")
  case (Raised msg)
  from main_failed [OF key args fetch_Raised [OF Raised]] Raised show ?thesis by simp
next
  case (Responded r)
  show ?thesis
  proof (cases "400 \<le> status_code r \<and> status_code r < 600")
    case True
    then have "400 \<le> status_code r" and "status_code r < 600" by simp_all
    from main_failed [OF key args fetch_http_error [OF Responded this]]
    have "snd (main w) = 2" by simp
    with True Responded show ?thesis by simp
  next
    case False
    show ?thesis
    proof (cases "json_body r")
      case (Inl msg)
      from main_failed [OF key args fetch_decode_error [OF Responded False Inl]]
      have "snd (main w) = 3" by simp
      with False Responded Inl show ?thesis by simp
    next
      case (Inr data)
      from main_exit_after_fetch [OF key args fetch_decoded [OF Responded False Inr]]
      have "snd (main w) \<noteq> 2" "snd (main w) \<noteq> 3" by auto
      with False Responded Inr show ?thesis by simp
    qed
  qed
qed


text \<open>
  C5. Once the key is set and the arguments have parsed, the run exits with code 2
  exactly when the response has a status from 400 to 599, the statuses for which
  \<open>raise_for_status\<close> raises, and the line on the error stream then holds the status,
  the reason, the URL and the body text. An exception of \<open>requests.get\<close> and a body
  that does not decode (under any other status) exit with code 3 and a line that holds
  the text of the error, and nothing else does. A usage error of the parser exits with
  code 2 as well.
\<close>

theorem request_exit_codes:
  "(getenv w (lit ''BRAVE_SEARCH_API_KEY'') = Some k \<and> k \<noteq> [] \<and> parse_args w = Inr a \<longrightarrow>
      (requests_get w (the_request k a) = Raised msg \<longrightarrow>
         main w = ([Http_Get (the_request k a), Stderr (lit ''Request failed: '' @ msg)], 3))
      \<and> (requests_get w (the_request k a) = Responded r
           \<and> 400 \<le> status_code r \<and> status_code r < 600 \<longrightarrow>
         main w = ([Http_Get (the_request k a),
                    Stderr (lit ''HTTP error: '' @ str_nat (status_code r)
                      @ (if status_code r < 500 then lit '' Client Error: ''
                         else lit '' Server Error: '')
                      @ reason r @ lit '' for url: '' @ final_url r
                      @ lit '' - '' @ body_text r)], 2))
      \<and> (requests_get w (the_request k a) = Responded r
           \<and> \<not> (400 \<le> status_code r \<and> status_code r < 600) \<and> json_body r = Inl msg \<longrightarrow>
         main w = ([Http_Get (the_request k a), Stderr (lit ''Request failed: '' @ msg)], 3))
      \<and> (snd (main w) = 2 \<longleftrightarrow>
           (\<exists>r'. requests_get w (the_request k a) = Responded r'
              \<and> 400 \<le> status_code r' \<and> status_code r' < 600))
      \<and> (snd (main w) = 3 \<longleftrightarrow>
           (\<exists>msg'. requests_get w (the_request k a) = Raised msg')
           \<or> (\<exists>r' msg'. requests_get w (the_request k a) = Responded r'
                \<and> \<not> (400 \<le> status_code r' \<and> status_code r' < 600)
                \<and> json_body r' = Inl msg')))
   \<and> (getenv w (lit ''BRAVE_SEARCH_API_KEY'') = Some k \<and> k \<noteq> [] \<and> parse_args w = Inl (Usage e) \<longrightarrow>
        main w = ([Usage_Message e], 2))"
proof -
  have usage: "main w = ([Usage_Message e], 2)"
    if "getenv w (lit ''BRAVE_SEARCH_API_KEY'') = Some k \<and> k \<noteq> [] \<and> parse_args w = Inl (Usage e)"
    using that by (simp add: main_def)
  have parsed:
    "(requests_get w (the_request k a) = Raised msg \<longrightarrow>
         main w = ([Http_Get (the_request k a), Stderr (lit ''Request failed: '' @ msg)], 3))
      \<and> (requests_get w (the_request k a) = Responded r
           \<and> 400 \<le> status_code r \<and> status_code r < 600 \<longrightarrow>
         main w = ([Http_Get (the_request k a),
                    Stderr (lit ''HTTP error: '' @ str_nat (status_code r)
                      @ (if status_code r < 500 then lit '' Client Error: ''
                         else lit '' Server Error: '')
                      @ reason r @ lit '' for url: '' @ final_url r
                      @ lit '' - '' @ body_text r)], 2))
      \<and> (requests_get w (the_request k a) = Responded r
           \<and> \<not> (400 \<le> status_code r \<and> status_code r < 600) \<and> json_body r = Inl msg \<longrightarrow>
         main w = ([Http_Get (the_request k a), Stderr (lit ''Request failed: '' @ msg)], 3))
      \<and> (snd (main w) = 2 \<longleftrightarrow>
           (\<exists>r'. requests_get w (the_request k a) = Responded r'
              \<and> 400 \<le> status_code r' \<and> status_code r' < 600))
      \<and> (snd (main w) = 3 \<longleftrightarrow>
           (\<exists>msg'. requests_get w (the_request k a) = Raised msg')
           \<or> (\<exists>r' msg'. requests_get w (the_request k a) = Responded r'
                \<and> \<not> (400 \<le> status_code r' \<and> status_code r' < 600)
                \<and> json_body r' = Inl msg'))"
    if h: "getenv w (lit ''BRAVE_SEARCH_API_KEY'') = Some k \<and> k \<noteq> [] \<and> parse_args w = Inr a"
  proof -
    from h have key: "getenv w (lit ''BRAVE_SEARCH_API_KEY'') = Some k" "k \<noteq> []"
      and args: "parse_args w = Inr a" by simp_all
    have c1: "main w = ([Http_Get (the_request k a), Stderr (lit ''Request failed: '' @ msg)], 3)"
      if "requests_get w (the_request k a) = Raised msg"
      using main_failed [OF key args fetch_Raised [OF that]] .
    have c2: "main w = ([Http_Get (the_request k a),
                    Stderr (lit ''HTTP error: '' @ str_nat (status_code r)
                      @ (if status_code r < 500 then lit '' Client Error: ''
                         else lit '' Server Error: '')
                      @ reason r @ lit '' for url: '' @ final_url r
                      @ lit '' - '' @ body_text r)], 2)"
      if "requests_get w (the_request k a) = Responded r
           \<and> 400 \<le> status_code r \<and> status_code r < 600"
    proof -
      from that have a1: "requests_get w (the_request k a) = Responded r"
        and a2: "400 \<le> status_code r" and a3: "status_code r < 600" by simp_all
      show ?thesis using main_failed [OF key args fetch_http_error [OF a1 a2 a3]] .
    qed
    have c3: "main w = ([Http_Get (the_request k a), Stderr (lit ''Request failed: '' @ msg)], 3)"
      if "requests_get w (the_request k a) = Responded r
           \<and> \<not> (400 \<le> status_code r \<and> status_code r < 600) \<and> json_body r = Inl msg"
    proof -
      from that have a1: "requests_get w (the_request k a) = Responded r"
        and a2: "\<not> (400 \<le> status_code r \<and> status_code r < 600)"
        and a3: "json_body r = Inl msg" by simp_all
      show ?thesis using main_failed [OF key args fetch_decode_error [OF a1 a2 a3]] .
    qed
    note c4 = main_exit_code [OF key args]
    show ?thesis
      apply (intro conjI)
          apply (rule impI, erule c1)
         apply (rule impI, erule c2)
        apply (rule impI, erule c3)
       apply (rule conjunct1 [OF c4])
      apply (rule conjunct2 [OF c4])
      done
  qed
  show ?thesis
    apply (rule conjI)
     apply (rule impI, erule parsed)
    apply (rule impI, erule usage)
    done
qed


lemma mock_key: "getenv mock_world (lit ''BRAVE_SEARCH_API_KEY'') = Some (lit ''secret'')"
  by (simp add: mock_world_def)

lemma secret_nonempty: "lit ''secret'' \<noteq> []"
  by (simp add: lit_def)

text \<open>
  A 401 answer: exit code 2 and the line with status, reason, URL and body. A command
  line without \<open>--q\<close>: exit code 2 from the parser.
\<close>

theorem request_exit_codes_witness:
  "main unauthorized_world =
     ([Http_Get (the_request (lit ''secret'') (defaults\<lparr>q := lit ''test'', table := True\<rparr>)),
       Stderr (lit ''HTTP error: 401 Client Error: Unauthorized for url: https://api.search.brave.com/res/v1/web/search - denied'')], 2)
   \<and> main no_query_world = ([Usage_Message Missing_Required], 2)"
proof -
  have p: "parse_args unauthorized_world = Inr (defaults\<lparr>q := lit ''test'', table := True\<rparr>)"
    by (simp add: parse_args_def ambiguous_def separator_def resolve_def take_action_def store_true_def option_strings_def
        mock_world_def unauthorized_world_def defaults_def lit_def)
  have k: "getenv unauthorized_world (lit ''BRAVE_SEARCH_API_KEY'') = Some (lit ''secret'')"
    using mock_key by (simp add: unauthorized_world_def)
  have p': "parse_args no_query_world = Inl (Usage Missing_Required)"
    by (simp add: parse_args_def ambiguous_def separator_def resolve_def take_action_def store_true_def option_strings_def
      mock_world_def no_query_world_def defaults_def lit_def)
  have k': "getenv no_query_world (lit ''BRAVE_SEARCH_API_KEY'') = Some (lit ''secret'')"
    using mock_key by (simp add: no_query_world_def)
  have r: "requests_get unauthorized_world
        (the_request (lit ''secret'') (defaults\<lparr>q := lit ''test'', table := True\<rparr>))
      = Responded \<lparr>status_code = 401, reason = lit ''Unauthorized'', final_url = API_URL,
        body_text = lit ''denied'', json_body = Inl (lit ''Expecting value'')\<rparr>"
    by (simp add: unauthorized_world_def)
  have s: "str_nat 401 = lit ''401''" by (simp add: lit_def)
  from request_exit_codes [of unauthorized_world "lit ''secret''"
      "defaults\<lparr>q := lit ''test'', table := True\<rparr>" "[]"
      "\<lparr>status_code = 401, reason = lit ''Unauthorized'', final_url = API_URL,
        body_text = lit ''denied'', json_body = Inl (lit ''Expecting value'')\<rparr>" Missing_Required]
    k p r secret_nonempty
  have "main unauthorized_world =
     ([Http_Get (the_request (lit ''secret'') (defaults\<lparr>q := lit ''test'', table := True\<rparr>)),
       Stderr (lit ''HTTP error: '' @ str_nat 401 @ lit '' Client Error: '' @ lit ''Unauthorized''
          @ lit '' for url: '' @ API_URL @ lit '' - '' @ lit ''denied'')], 2)"
    by simp
  moreover from request_exit_codes [of no_query_world "lit ''secret''" defaults "[]"
      mock_response Missing_Required] k' p' secret_nonempty
  have "main no_query_world = ([Usage_Message Missing_Required], 2)" by simp
  ultimately show ?thesis
    by (simp add: s API_URL_def lit_def)
qed

text \<open>
  The claim as stated fails in both directions: a response with status 600 is not an
  \<open>HTTPError\<close> for \<open>raise_for_status\<close>, so the run does not exit with code 2; and a
  command line without \<open>--q\<close> exits with code 2 without any response.
\<close>

theorem request_exit_codes_counterexample:
  "400 \<le> status_code (mock_response\<lparr>status_code := 600\<rparr>)
   \<and> requests_get status_600_world
        (the_request (lit ''secret'') (defaults\<lparr>q := lit ''test'', table := True\<rparr>))
      = Responded (mock_response\<lparr>status_code := 600\<rparr>)
   \<and> snd (main status_600_world) \<noteq> 2
   \<and> main no_query_world = ([Usage_Message Missing_Required], 2)"
proof -
  have p: "parse_args status_600_world = Inr (defaults\<lparr>q := lit ''test'', table := True\<rparr>)"
    by (simp add: parse_args_def ambiguous_def separator_def resolve_def take_action_def store_true_def option_strings_def
        mock_world_def status_600_world_def defaults_def lit_def)
  have k: "getenv status_600_world (lit ''BRAVE_SEARCH_API_KEY'') = Some (lit ''secret'')"
    using mock_key by (simp add: status_600_world_def)
  have r: "requests_get status_600_world
        (the_request (lit ''secret'') (defaults\<lparr>q := lit ''test'', table := True\<rparr>))
      = Responded (mock_response\<lparr>status_code := 600\<rparr>)"
    by (simp add: status_600_world_def)
  have d: "fetch status_600_world
        (the_request (lit ''secret'') (defaults\<lparr>q := lit ''test'', table := True\<rparr>))
      = Inr mock_data"
    by (rule fetch_decoded [OF r]) (simp_all add: mock_response_def)
  from main_exit_after_fetch [OF k secret_nonempty p d]
  have "snd (main status_600_world) \<noteq> 2" by auto
  moreover have "main no_query_world = ([Usage_Message Missing_Required], 2)"
    by (simp add: main_def parse_args_def ambiguous_def separator_def resolve_def take_action_def store_true_def option_strings_def
      mock_world_def no_query_world_def defaults_def lit_def)
  ultimately show ?thesis using r by (simp add: mock_response_def)
qed

section \<open>Properties of compact_table\<close>


lemma item_title_ok:
  "(\<exists>t. item_title kvs = Inr t) \<longleftrightarrow>
     truthy (dict_get kvs (lit ''title'')) \<or> map_of kvs (lit ''source'') = None
     \<or> (\<exists>src. map_of kvs (lit ''source'') = Some (JDict src))"
proof (cases "truthy (dict_get kvs (lit ''title''))")
  case True
  then show ?thesis by (simp add: item_title_def)
next
  case False
  show ?thesis
  proof (cases "map_of kvs (lit ''source'')")
    case None
    with False show ?thesis by (simp add: item_title_def dict_get_default_def)
  next
    case (Some v)
    with False show ?thesis
      by (cases v) (simp_all add: item_title_def dict_get_default_def)
  qed
qed

lemma item_title_error: "item_title kvs = Inl e \<Longrightarrow> e = AttributeError"
proof (cases "map_of kvs (lit ''source'')")
  case None
  assume "item_title kvs = Inl e"
  with None show ?thesis
    by (simp add: item_title_def dict_get_default_def split: if_splits)
next
  case (Some v)
  assume "item_title kvs = Inl e"
  with Some show ?thesis
    by (cases v) (simp_all add: item_title_def dict_get_default_def split: if_splits)
qed

lemma item_title_raises:
  assumes "\<not> truthy (dict_get kvs (lit ''title''))"
    and "map_of kvs (lit ''source'') = Some v" and "\<forall>src. v \<noteq> JDict src"
  shows "item_title kvs = Inl AttributeError"
proof -
  from item_title_ok [of kvs] assms have "\<not> (\<exists>t. item_title kvs = Inr t)" by simp
  then obtain e where "item_title kvs = Inl e" by (cases "item_title kvs") auto
  with item_title_error [OF this] show ?thesis by simp
qed

lemma split_method_ok: "(\<exists>s. split_method v = Inr s) \<longleftrightarrow> (\<exists>s. v = JStr s)"
  by (cases v) simp_all

lemma split_method_error: "split_method v = Inl e \<Longrightarrow> e = AttributeError"
  by (cases v) simp_all

lemma render_item_error: "render_item w i item = Inl e \<Longrightarrow> e = AttributeError"
  by (cases item)
    (auto simp: render_item_def split: sum.splits
      dest: item_title_error split_method_error)

lemma render_item_ok:
  "(\<exists>b. render_item w i item = Inr b) \<longleftrightarrow>
     (\<exists>kvs. item = JDict kvs \<and> (\<exists>t. item_title kvs = Inr t)
        \<and> (\<exists>s. item_snippet kvs = JStr s))"
proof (cases item)
  case (JDict kvs)
  show ?thesis
  proof (cases "item_title kvs")
    case (Inl e)
    with JDict show ?thesis by (simp add: render_item_def)
  next
    case (Inr t)
    with JDict show ?thesis
      by (cases "item_snippet kvs") (simp_all add: render_item_def)
  qed
qed (simp_all add: render_item_def)

lemma render_item_block:
  assumes "render_item w i item = Inr b"
  shows "\<exists>kvs title s. item = JDict kvs \<and> item_title kvs = Inr title
           \<and> item_snippet kvs = JStr s
           \<and> b = format_block i (format_value w title) (format_value w (item_url kvs))
                   (textwrap_fill w (shorten (collapse s)) 92)"
proof -
  from assms render_item_ok [of w i item] obtain kvs t s where
    item: "item = JDict kvs" and t: "item_title kvs = Inr t" and s: "item_snippet kvs = JStr s"
    by blast
  with assms show ?thesis by (simp add: render_item_def)
qed

lemma table_lines_error: "table_lines w i items = Inl e \<Longrightarrow> e = AttributeError"
  by (induction items arbitrary: i)
    (auto split: sum.splits dest: render_item_error)

lemma table_lines_ok:
  "(\<exists>bs. table_lines w i items = Inr bs) \<longleftrightarrow>
     (\<forall>item \<in> set items. \<exists>b. render_item w i item = Inr b)"
proof (induction items arbitrary: i)
  case Nil
  then show ?case by simp
next
  case (Cons item items)
  have indep: "(\<exists>b. render_item w j x = Inr b) \<longleftrightarrow> (\<exists>b. render_item w i x = Inr b)" for j x
    by (simp add: render_item_ok)
  show ?case
  proof (cases "render_item w i item")
    case (Inl e)
    then show ?thesis by simp
  next
    case (Inr b)
    with Cons.IH [of "Suc i"] indep [of "Suc i"] show ?thesis
      by (auto split: sum.splits)
  qed
qed


lemma compact_table_error: "compact_table w (JList items) = Inl e \<Longrightarrow> e = AttributeError"
  by (auto simp: compact_table_def split: sum.splits dest: table_lines_error)

lemma compact_table_ok:
  "(\<exists>t. compact_table w (JList items) = Inr t) \<longleftrightarrow>
     (\<forall>item \<in> set items. \<exists>b. render_item w 1 item = Inr b)"
proof -
  have "(\<exists>t. compact_table w (JList items) = Inr t) \<longleftrightarrow> (\<exists>bs. table_lines w 1 items = Inr bs)"
    by (cases "table_lines w 1 items") (simp_all add: compact_table_def)
  then show ?thesis by (simp only: table_lines_ok)
qed

lemma compact_table_raises:
  assumes "item \<in> set items" and "render_item w i item = Inl e"
  shows "compact_table w (JList items) = Inl AttributeError"
proof -
  from assms(2) have "\<not> (\<exists>b. render_item w 1 item = Inr b)"
    using render_item_ok [of w i item] render_item_ok [of w 1 item] by auto
  with assms(1) have "\<not> (\<exists>t. compact_table w (JList items) = Inr t)"
    by (auto simp: compact_table_ok)
  then obtain e' where "compact_table w (JList items) = Inl e'"
    by (cases "compact_table w (JList items)") auto
  with compact_table_error [OF this] show ?thesis by simp
qed

text \<open>
  C10. \<open>compact_table\<close> is not total. An item whose \<open>title\<close> is absent or falsy and
  whose \<open>source\<close> is present and not a document makes the title lookup, and with it
  the whole call, raise \<open>AttributeError\<close>. The title lookup returns exactly when the
  title is truthy, or \<open>source\<close> is absent or a document. \<open>compact_table\<close> returns
  on a list exactly when every item is a document whose title lookup returns and whose
  snippet value (\<open>description\<close>, else \<open>snippet\<close>, else the empty string) is a string.
\<close>

theorem compact_table_totality:
  "(\<not> truthy (dict_get kvs (lit ''title'')) \<and> map_of kvs (lit ''source'') = Some v
      \<and> (\<forall>src. v \<noteq> JDict src) \<longrightarrow>
      item_title kvs = Inl AttributeError
      \<and> render_item w i (JDict kvs) = Inl AttributeError
      \<and> (JDict kvs \<in> set items \<longrightarrow> compact_table w (JList items) = Inl AttributeError))
   \<and> ((\<exists>t. item_title kvs = Inr t) \<longleftrightarrow>
        truthy (dict_get kvs (lit ''title'')) \<or> map_of kvs (lit ''source'') = None
        \<or> (\<exists>src. map_of kvs (lit ''source'') = Some (JDict src)))
   \<and> ((\<exists>t. compact_table w (JList items) = Inr t) \<longleftrightarrow>
        (\<forall>item \<in> set items. \<exists>kvs'. item = JDict kvs'
           \<and> (truthy (dict_get kvs' (lit ''title'')) \<or> map_of kvs' (lit ''source'') = None
               \<or> (\<exists>src. map_of kvs' (lit ''source'') = Some (JDict src)))
           \<and> (\<exists>s. item_snippet kvs' = JStr s)))"
proof -
  have raises: "item_title kvs = Inl AttributeError
      \<and> render_item w i (JDict kvs) = Inl AttributeError
      \<and> (JDict kvs \<in> set items \<longrightarrow> compact_table w (JList items) = Inl AttributeError)"
    if h: "\<not> truthy (dict_get kvs (lit ''title'')) \<and> map_of kvs (lit ''source'') = Some v
      \<and> (\<forall>src. v \<noteq> JDict src)"
  proof -
    from h have t: "item_title kvs = Inl AttributeError"
      using item_title_raises [of kvs v] by simp
    then have r: "render_item w i (JDict kvs) = Inl AttributeError"
      by (simp add: render_item_def)
    from compact_table_raises [OF _ r] t r show ?thesis by simp
  qed
  have total: "(\<exists>t. compact_table w (JList items) = Inr t) \<longleftrightarrow>
        (\<forall>item \<in> set items. \<exists>kvs'. item = JDict kvs'
           \<and> (truthy (dict_get kvs' (lit ''title'')) \<or> map_of kvs' (lit ''source'') = None
               \<or> (\<exists>src. map_of kvs' (lit ''source'') = Some (JDict src)))
           \<and> (\<exists>s. item_snippet kvs' = JStr s))"
    by (simp only: compact_table_ok render_item_ok item_title_ok)
  show ?thesis
    apply (intro conjI)
      apply (rule impI, erule raises)
     apply (rule item_title_ok)
    apply (rule total)
    done
qed

text \<open>
  The second half of the claim as stated fails: the item \<open>{"description": 5}\<close> has
  no \<open>source\<close> field, and \<open>compact_table\<close> raises on it, as \<open>5\<close> has no
  \<open>split\<close>.
\<close>

theorem compact_table_totality_counterexample:
  "map_of [(lit ''description'', JInt 5)] (lit ''source'') = None
   \<and> compact_table mock_world (JList [JDict [(lit ''description'', JInt 5)]]) = Inl AttributeError"
  by (simp add: compact_table_def render_item_def item_title_def item_snippet_def
      dict_get_def dict_get_default_def py_or_def lit_def)

text \<open>
  A \<open>source\<close> that is a string or \<open>null\<close> raises; a \<open>source\<close> that is a
  document does not.
\<close>

theorem compact_table_totality_witness:
  "compact_table mock_world (JList [JDict [(lit ''source'', JStr (lit ''news''))]])
     = Inl AttributeError
   \<and> compact_table mock_world (JList [JDict [(lit ''source'', JNull)]]) = Inl AttributeError
   \<and> (\<exists>t. compact_table mock_world
          (JList [JDict [(lit ''source'', JDict [(lit ''title'', JStr (lit ''S''))])], mock_item])
        = Inr t)"
proof -
  have 1: "compact_table mock_world (JList [JDict [(lit ''source'', JStr (lit ''news''))]])
     = Inl AttributeError"
    using compact_table_totality [of "[(lit ''source'', JStr (lit ''news''))]"
        "JStr (lit ''news'')" mock_world 1 "[JDict [(lit ''source'', JStr (lit ''news''))]]"]
    by (simp add: dict_get_def dict_get_default_def lit_def)
  have 2: "compact_table mock_world (JList [JDict [(lit ''source'', JNull)]]) = Inl AttributeError"
    using compact_table_totality [of "[(lit ''source'', JNull)]"
        JNull mock_world 1 "[JDict [(lit ''source'', JNull)]]"]
    by (simp add: dict_get_def dict_get_default_def lit_def)
  have 3: "\<exists>t. compact_table mock_world
          (JList [JDict [(lit ''source'', JDict [(lit ''title'', JStr (lit ''S''))])], mock_item])
        = Inr t"
    using compact_table_totality [of "[]" JNull mock_world 1
        "[JDict [(lit ''source'', JDict [(lit ''title'', JStr (lit ''S''))])], mock_item]"]
    by (simp add: mock_item_def item_snippet_def dict_get_def dict_get_default_def py_or_def
        lit_def)
  from 1 2 3 show ?thesis by (intro conjI)
qed

section \<open>Properties of the snippet\<close>

text \<open>Splitting at whitespace and joining with single spaces.\<close>


lemma split_from_word:
  "\<forall>c \<in> set x. \<not> isspace c \<Longrightarrow> split_from cur (x @ rest) = split_from (cur @ x) rest"
  by (induction x arbitrary: cur) simp_all

lemma split_from_clean:
  "\<forall>c \<in> set cur. \<not> isspace c \<Longrightarrow>
   \<forall>x \<in> set (split_from cur s). x \<noteq> [] \<and> (\<forall>c \<in> set x. \<not> isspace c)"
proof (induction s arbitrary: cur)
  case Nil
  then show ?case by simp
next
  case (Cons c s)
  show ?case
  proof (cases "isspace c")
    case True
    have "\<forall>x \<in> set (split_from [] s). x \<noteq> [] \<and> (\<forall>c \<in> set x. \<not> isspace c)"
      by (rule Cons.IH) simp
    with True Cons.prems show ?thesis by simp
  next
    case False
    with Cons.prems have "\<forall>d \<in> set (cur @ [c]). \<not> isspace d" by simp
    from Cons.IH [OF this] False show ?thesis by simp
  qed
qed

lemma split_from_concat:
  "concat (split_from cur s) = cur @ filter (\<lambda>c. \<not> isspace c) s"
  by (induction s arbitrary: cur) auto

lemma str_split_clean:
  "\<forall>x \<in> set (str_split s). x \<noteq> [] \<and> (\<forall>c \<in> set x. \<not> isspace c)"
  unfolding str_split_def by (rule split_from_clean) simp

lemma str_split_concat: "concat (str_split s) = filter (\<lambda>c. \<not> isspace c) s"
  by (simp add: str_split_def split_from_concat)

lemma isspace_32: "isspace 32"
  by (simp add: isspace_def)

lemma lit_space: "lit '' '' = [32]"
  by (simp add: lit_def)

lemma str_split_join:
  "\<forall>x \<in> set ws. x \<noteq> [] \<and> (\<forall>c \<in> set x. \<not> isspace c)
   \<Longrightarrow> str_split (str_join [32] ws) = ws"
proof (induction ws)
  case Nil
  then show ?case by (simp add: str_split_def)
next
  case (Cons x ws)
  then have x: "x \<noteq> []" "\<forall>c \<in> set x. \<not> isspace c" by simp_all
  show ?case
  proof (cases ws)
    case Nil
    have "split_from [] (x @ []) = split_from ([] @ x) []"
      using x(2) by (rule split_from_word)
    with x(1) Nil show ?thesis by (simp add: str_split_def)
  next
    case (Cons y ys)
    from Cons.prems Cons.IH have IH: "split_from [] (str_join [32] ws) = ws"
      by (simp add: str_split_def)
    have "split_from [] (x @ [32] @ str_join [32] ws)
        = split_from ([] @ x) ([32] @ str_join [32] ws)"
      using x(2) by (rule split_from_word)
    also have "\<dots> = x # split_from [] (str_join [32] ws)"
      using x(1) by (simp add: isspace_32)
    finally show ?thesis
      using IH Cons by (simp add: str_split_def)
  qed
qed

lemma str_split_collapse: "str_split (collapse s) = str_split s"
  unfolding collapse_def lit_space by (rule str_split_join) (rule str_split_clean)

lemma collapse_word:
  assumes "x \<noteq> []" and "\<forall>c \<in> set x. \<not> isspace c"
  shows "collapse x = x"
proof -
  have "split_from [] (x @ []) = split_from ([] @ x) []"
    using assms(2) by (rule split_from_word)
  with assms(1) show ?thesis by (simp add: collapse_def str_split_def)
qed

section \<open>Properties of the renderer\<close>


lemma mock_render_item:
  "render_item mock_world (Suc 0) mock_item = Inr (lit '' 1. T\<newline>    http://x\<newline>    d'')"
  by (simp add: render_item_def mock_item_def item_title_def item_url_def item_snippet_def
      dict_get_def dict_get_default_def py_or_def format_block_def format_value_def
      collapse_def str_split_def isspace_def shorten_def rjust_def mock_world_def
      simple_fill_def lit_def)

lemma mock_compact_table:
  "compact_table mock_world (JList [mock_item]) = Inr (lit '' 1. T\<newline>    http://x\<newline>    d'')"
  by (simp add: compact_table_def mock_render_item)













lemma table_stage_cases:
  "table_stage w data =
     (case extract_web_results data of
        Inl e \<Rightarrow> ([Traceback e], 1)
      | Inr results \<Rightarrow>
          if \<not> truthy results then
            (if stdout_ok w (lit ''No web results in response'')
             then ([Stdout (lit ''No web results in response'')], 0)
             else ([Traceback UnicodeEncodeError], 1))
          else
            (case compact_table w results of
               Inl e \<Rightarrow> ([Traceback e], 1)
             | Inr t \<Rightarrow>
                 if stdout_ok w t then ([Stdout t], 0)
                 else ([Traceback UnicodeEncodeError], 1)))"
  by (simp add: table_stage_def say_def split: sum.splits)



lemma render_table_only:
  "\<not> json a \<Longrightarrow> table a \<Longrightarrow> render w a data = table_stage w data"
  by (simp add: render_def)




lemma table_stage_notice:
  "extract_web_results data = Inr results \<Longrightarrow> \<not> truthy results
   \<Longrightarrow> stdout_ok w (lit ''No web results in response'')
   \<Longrightarrow> table_stage w data = ([Stdout (lit ''No web results in response'')], 0)"
  by (simp add: table_stage_cases)







section \<open>Properties of the saved file\<close>

lemma save_response_cases:
  "save_response w a data =
     (if save a = None \<or> save a = Some [] then ([], True)
      else if \<not> open_ok w (the (save a)) then ([Traceback OSError], False)
      else if utf8_encodable (json_dumps w 2 data) then
        ([File_Write (the (save a)) (lit ''utf-8'') (json_dumps w 2 data)], True)
      else ([File_Partial (the (save a)) (lit ''utf-8''), Traceback UnicodeEncodeError], False))"
  by (simp add: save_response_def split: option.splits)




lemma main_not_saved:
  assumes "getenv w (lit ''BRAVE_SEARCH_API_KEY'') = Some k" and "k \<noteq> []"
    and "parse_args w = Inr a" and "fetch w (the_request k a) = Inr data"
    and "save a = None \<or> save a = Some []"
  shows "main w = (Http_Get (the_request k a) # fst (render w a data), snd (render w a data))"
  using assms(4,5) by (auto simp: main_parsed [OF assms(1-3)] save_response_cases)











section \<open>Properties of the snippet pipeline\<close>

lemma collapse_two_words:
  assumes u: "u \<noteq> []" "\<forall>c \<in> set u. \<not> isspace c"
    and v: "v \<noteq> []" "\<forall>c \<in> set v. \<not> isspace c"
    and r: "r \<noteq> []" "\<forall>c \<in> set r. isspace c"
    and l: "\<forall>c \<in> set lead. isspace c" and t: "\<forall>c \<in> set trail. isspace c"
  shows "collapse (lead @ u @ r @ v @ trail) = u @ [32] @ v"
proof -
  have skip: "split_from [] (ws @ rest) = split_from [] rest" if "\<forall>c \<in> set ws. isspace c"
    for ws rest using that by (induction ws) simp_all
  have close: "split_from cur (ws @ rest) = cur # split_from [] rest"
    if "ws \<noteq> []" "\<forall>c \<in> set ws. isspace c" "cur \<noteq> []" for ws rest cur
  proof -
    from that(1) obtain c cs where ws: "ws = c # cs" by (cases ws) auto
    with that(2) have "isspace c" "\<forall>c \<in> set cs. isspace c" by simp_all
    with that(3) ws skip [of cs rest] show ?thesis by simp
  qed
  have last: "split_from cur trail = [cur]" if "cur \<noteq> []" for cur
  proof (cases trail)
    case Nil
    with that show ?thesis by simp
  next
    case (Cons c cs)
    with t have "isspace c" "\<forall>c \<in> set cs. isspace c" by simp_all
    with that Cons skip [of cs "[]"] show ?thesis by simp
  qed
  have "split_from [] (lead @ u @ r @ v @ trail) = split_from [] (u @ r @ v @ trail)"
    using l by (rule skip)
  also have "\<dots> = split_from ([] @ u) (r @ v @ trail)"
    using u(2) by (rule split_from_word)
  also have "\<dots> = u # split_from [] (v @ trail)"
    using close [OF r, of u "v @ trail"] u(1) by simp
  also have "split_from [] (v @ trail) = split_from ([] @ v) trail"
    using v(2) by (rule split_from_word)
  also have "\<dots> = [v]" using last [of v] v(1) by simp
  finally show ?thesis by (simp add: collapse_def str_split_def lit_space)
qed

lemma shorten_long:
  "160 < length s \<Longrightarrow> shorten s = take 157 s @ lit ''...'' \<and> length (shorten s) = 160"
  by (simp add: shorten_def lit_def)

lemma shorten_short: "length s \<le> 160 \<Longrightarrow> shorten s = s"
  by (simp add: shorten_def)

lemma shorten_word_200:
  assumes "length s = 200" and "\<forall>c \<in> set s. \<not> isspace c"
  shows "shorten (collapse s) = take 157 s @ lit ''...''"
proof -
  from assms(1) have "s \<noteq> []" by auto
  from collapse_word [OF this assms(2)] assms(1) shorten_long [of s] show ?thesis by simp
qed

text \<open>The three example texts, collapsed and shortened.\<close>

lemma isspace_120: "\<not> isspace 120" "\<not> isspace 121"
  by (simp_all add: isspace_def)

lemma collapse_long_word: "collapse long_word = long_word"
  by (rule collapse_word) (simp_all add: long_word_def isspace_120)

lemma collapse_wide_word: "collapse wide_word = wide_word"
  by (rule collapse_word) (simp_all add: wide_word_def isspace_120)

lemma collapse_spaced_text: "collapse spaced_text = [120, 32, 121]"
  using collapse_two_words [of "[120]" "[121]" "replicate 198 32" "[]" "[]"]
  by (simp add: spaced_text_def isspace_120 isspace_32)

lemma described_item_fields:
  "item_title [(lit ''title'', JStr (lit ''T'')), (lit ''url'', JStr (lit ''http://x'')),
               (lit ''description'', JStr s)] = Inr (JStr (lit ''T''))"
  "item_url [(lit ''title'', JStr (lit ''T'')), (lit ''url'', JStr (lit ''http://x'')),
             (lit ''description'', JStr s)] = JStr (lit ''http://x'')"
  "s \<noteq> [] \<Longrightarrow>
   item_snippet [(lit ''title'', JStr (lit ''T'')), (lit ''url'', JStr (lit ''http://x'')),
                 (lit ''description'', JStr s)] = JStr s"
  by (simp_all add: item_title_def item_url_def item_snippet_def dict_get_def
      dict_get_default_def py_or_def lit_def)

lemma render_described_item:
  "s \<noteq> [] \<Longrightarrow>
   render_item w i (described_item s) =
     Inr (format_block i (lit ''T'') (lit ''http://x'') (textwrap_fill w (shorten (collapse s)) 92))"
  by (simp add: render_item_def described_item_def described_item_fields format_value_def)

lemma mock_fill: "textwrap_fill mock_world = simple_fill"
  by (simp add: mock_world_def)

lemma render_long_word:
  "render_item mock_world (Suc 0) (described_item long_word) =
     Inr (lit '' 1. T\<newline>    http://x\<newline>    '' @ replicate 92 120 @ lit ''\<newline>''
          @ replicate 65 120 @ lit ''...'')"
proof -
  have ne: "long_word \<noteq> []" by (simp add: long_word_def)
  have sh: "shorten (collapse long_word) = replicate 157 120 @ lit ''...''"
    unfolding collapse_long_word by (simp add: shorten_def long_word_def)
  have fill: "simple_fill (replicate 157 120 @ lit ''...'') 92
      = replicate 92 120 @ lit ''\<newline>'' @ replicate 65 120 @ lit ''...''"
    by (simp add: simple_fill_def lit_def)
  show ?thesis
    unfolding render_described_item [OF ne] sh mock_fill fill
    by (simp add: format_block_def rjust_def lit_def)
qed

lemma render_spaced_text:
  "render_item mock_world (Suc 0) (described_item spaced_text) =
     Inr (lit '' 1. T\<newline>    http://x\<newline>    x y'')"
proof -
  have ne: "spaced_text \<noteq> []" by (simp add: spaced_text_def)
  have sh: "shorten (collapse spaced_text) = [120, 32, 121]"
    unfolding collapse_spaced_text by (simp add: shorten_def)
  show ?thesis
    unfolding render_described_item [OF ne] sh mock_fill
    by (simp add: simple_fill_def format_block_def rjust_def lit_def)
qed

text \<open>
  Claim C4, as the code has it. The block of every item that is rendered holds
  \<open>textwrap.fill\<close>, at width 92, of the shortened form of the collapsed snippet. The
  collapsed snippet is the words of the snippet, the maximal runs of characters that are
  not whitespace, joined by single spaces: no whitespace is left at either end, and
  collapsing twice changes nothing; two words with whitespace around and between them
  collapse to the two words and one space. A collapsed snippet of more than 160 characters
  is cut to its first 157 characters followed by \<open>...\<close>, 160 characters in all, and a
  shorter one is left as it is. In particular a snippet that has 200 characters once
  collapsed, such as one of 200 characters without whitespace, becomes its first 157
  characters and the three dots, before it is wrapped.
\<close>

theorem snippet_pipeline:
  "(render_item w i item = Inr block \<longrightarrow>
      (\<exists>kvs title s'. item = JDict kvs \<and> item_title kvs = Inr title
         \<and> item_snippet kvs = JStr s'
         \<and> block = format_block i (format_value w title) (format_value w (item_url kvs))
                     (textwrap_fill w (shorten (collapse s')) 92)))
   \<and> collapse s = str_join (lit '' '') (str_split s)
   \<and> (\<forall>x \<in> set (str_split s). x \<noteq> [] \<and> (\<forall>c \<in> set x. \<not> isspace c))
   \<and> concat (str_split s) = filter (\<lambda>c. \<not> isspace c) s
   \<and> str_split (collapse s) = str_split s
   \<and> (u \<noteq> [] \<and> (\<forall>c \<in> set u. \<not> isspace c) \<and> v \<noteq> [] \<and> (\<forall>c \<in> set v. \<not> isspace c)
        \<and> r \<noteq> [] \<and> (\<forall>c \<in> set r. isspace c)
        \<and> (\<forall>c \<in> set lead. isspace c) \<and> (\<forall>c \<in> set trail. isspace c) \<longrightarrow>
        collapse (lead @ u @ r @ v @ trail) = u @ lit '' '' @ v)
   \<and> (160 < length (collapse s) \<longrightarrow>
        shorten (collapse s) = take 157 (collapse s) @ lit ''...''
        \<and> length (shorten (collapse s)) = 160)
   \<and> (length (collapse s) \<le> 160 \<longrightarrow> shorten (collapse s) = collapse s)
   \<and> (length (collapse s) = 200 \<longrightarrow>
        shorten (collapse s) = take 157 (collapse s) @ lit ''...'')
   \<and> (length s = 200 \<and> (\<forall>c \<in> set s. \<not> isspace c) \<longrightarrow>
        shorten (collapse s) = take 157 s @ lit ''...'')"
proof -
  have two: "collapse (lead @ u @ r @ v @ trail) = u @ lit '' '' @ v"
    if "u \<noteq> [] \<and> (\<forall>c \<in> set u. \<not> isspace c) \<and> v \<noteq> [] \<and> (\<forall>c \<in> set v. \<not> isspace c)
        \<and> r \<noteq> [] \<and> (\<forall>c \<in> set r. isspace c)
        \<and> (\<forall>c \<in> set lead. isspace c) \<and> (\<forall>c \<in> set trail. isspace c)"
  proof -
    from that have "u \<noteq> []" "\<forall>c \<in> set u. \<not> isspace c" "v \<noteq> []" "\<forall>c \<in> set v. \<not> isspace c"
      "r \<noteq> []" "\<forall>c \<in> set r. isspace c" "\<forall>c \<in> set lead. isspace c"
      "\<forall>c \<in> set trail. isspace c"
      by simp_all
    then show ?thesis unfolding lit_space by (rule collapse_two_words)
  qed
  have c200: "shorten (collapse s) = take 157 (collapse s) @ lit ''...''"
    if "length (collapse s) = 200"
  proof -
    from that have "160 < length (collapse s)" by simp
    from shorten_long [OF this] show ?thesis by simp
  qed
  show ?thesis
    apply (intro conjI)
             apply (rule impI, erule render_item_block)
            apply (rule collapse_def)
           apply (rule str_split_clean)
          apply (rule str_split_concat)
         apply (rule str_split_collapse)
        apply (rule impI, erule two)
       apply (rule impI, erule shorten_long)
      apply (rule impI, erule shorten_short)
     apply (rule impI, erule c200)
    apply (rule impI, elim conjE, erule (1) shorten_word_200)
    done
qed

text \<open>
  A word of 200 characters is cut to 157 characters and three dots, and the mock world's
  \<open>textwrap.fill\<close> breaks it after 92 characters; the text \<open>" a\t\nb "\<close> collapses to
  \<open>"a b"\<close>.
\<close>

theorem snippet_pipeline_witness:
  "length long_word = 200
   \<and> shorten (collapse long_word) = replicate 157 120 @ lit ''...''
   \<and> length (shorten (collapse long_word)) = 160
   \<and> render_item mock_world (Suc 0) (described_item long_word) =
       Inr (lit '' 1. T\<newline>    http://x\<newline>    '' @ replicate 92 120 @ lit ''\<newline>''
            @ replicate 65 120 @ lit ''...'')
   \<and> collapse [32, 97, 9, 10, 98, 32] = [97, 32, 98]
   \<and> shorten (collapse [32, 97, 9, 10, 98, 32]) = [97, 32, 98]"
proof -
  note T = snippet_pipeline [of mock_world "Suc 0" "described_item long_word"
      "lit '' 1. T\<newline>    http://x\<newline>    '' @ replicate 92 120 @ lit ''\<newline>''
         @ replicate 65 120 @ lit ''...''"
      long_word "[97]" "[98]" "[9, 10]" "[32]" "[32]"]
  have len: "length long_word = 200" by (simp add: long_word_def)
  have word: "length long_word = 200 \<and> (\<forall>c \<in> set long_word. \<not> isspace c)"
    by (simp add: long_word_def isspace_120)
  have long: "160 < length (collapse long_word)"
    unfolding collapse_long_word by (simp add: long_word_def)
  from T word have "shorten (collapse long_word) = take 157 long_word @ lit ''...''" by blast
  then have sh: "shorten (collapse long_word) = replicate 157 120 @ lit ''...''"
    by (simp add: long_word_def)
  from T long have l160: "length (shorten (collapse long_word)) = 160" by blast
  have h: "[97] \<noteq> [] \<and> (\<forall>c \<in> set [97]. \<not> isspace c) \<and> [98] \<noteq> []
      \<and> (\<forall>c \<in> set [98]. \<not> isspace c) \<and> [9, 10] \<noteq> [] \<and> (\<forall>c \<in> set [9, 10]. isspace c)
      \<and> (\<forall>c \<in> set [32]. isspace c) \<and> (\<forall>c \<in> set [32]. isspace c)"
    by (simp add: isspace_def)
  from T h have "collapse ([32] @ [97] @ [9, 10] @ [98] @ [32]) = [97] @ lit '' '' @ [98]"
    by blast
  then have two: "collapse [32, 97, 9, 10, 98, 32] = [97, 32, 98]"
    by (simp add: lit_space)
  then have short: "shorten (collapse [32, 97, 9, 10, 98, 32]) = [97, 32, 98]"
    by (simp add: shorten_def)
  from len sh l160 render_long_word two short show ?thesis by simp
qed

text \<open>
  The claim as it was stated fails on a snippet of 200 characters that holds a run of
  whitespace: the letter \<open>x\<close>, 198 spaces and the letter \<open>y\<close> collapse to the three
  characters \<open>x y\<close>, which are rendered as they are, without any dots.
\<close>

theorem snippet_pipeline_counterexample:
  "length spaced_text = 200
   \<and> shorten (collapse spaced_text) = [120, 32, 121]
   \<and> render_item mock_world (Suc 0) (described_item spaced_text) =
       Inr (lit '' 1. T\<newline>    http://x\<newline>    x y'')"
proof -
  have len: "length spaced_text = 200" by (simp add: spaced_text_def)
  have sh: "shorten (collapse spaced_text) = [120, 32, 121]"
    unfolding collapse_spaced_text by (simp add: shorten_def)
  from len sh render_spaced_text show ?thesis by (intro conjI)
qed

section \<open>Properties of table mode\<close>

lemma table_lines_blocks:
  "table_lines w i items = Inr blocks \<Longrightarrow>
   length blocks = length items
   \<and> (\<forall>n < length items. render_item w (i + n) (items ! n) = Inr (blocks ! n))"
proof (induction items arbitrary: i blocks)
  case Nil
  then show ?case by simp
next
  case (Cons item items)
  from Cons.prems obtain l ls where
    l: "render_item w i item = Inr l" and ls: "table_lines w (Suc i) items = Inr ls"
    and blocks: "blocks = l # ls"
    by (auto split: sum.splits)
  from Cons.IH [OF ls] have len: "length ls = length items"
    and rest: "\<And>n. n < length items \<Longrightarrow> render_item w (Suc i + n) (items ! n) = Inr (ls ! n)"
    by simp_all
  have "render_item w (i + n) ((item # items) ! n) = Inr (blocks ! n)"
    if "n < length (item # items)" for n
  proof (cases n)
    case 0
    with l blocks show ?thesis by simp
  next
    case (Suc m)
    with that rest [of m] blocks show ?thesis by simp
  qed
  with len blocks show ?case by simp
qed

lemma compact_table_list:
  assumes "compact_table w results = Inr t" and "truthy results"
  shows "\<exists>items. results = JList items \<and> items \<noteq> []"
proof (cases results)
  case (JList xs)
  with assms(2) show ?thesis by simp
next
  case (JDict kvs)
  with assms(2) obtain kv kvs' where "kvs = kv # kvs'" by (cases kvs) auto
  with assms(1) JDict show ?thesis
    by (simp add: compact_table_def render_item_def)
next
  case (JStr s)
  with assms(2) obtain c s' where "s = c # s'" by (cases s) auto
  with assms(1) JStr show ?thesis
    by (simp add: compact_table_def render_item_def)
qed (use assms in \<open>simp_all add: compact_table_def\<close>)

lemma compact_table_blocks:
  assumes "compact_table w results = Inr t" and "truthy results"
  shows "\<exists>items blocks. results = JList items \<and> items \<noteq> []
     \<and> t = str_join (lit ''\<newline>'') blocks \<and> length blocks = length items
     \<and> (\<forall>n < length items. \<exists>kvs title s.
          items ! n = JDict kvs \<and> item_title kvs = Inr title \<and> item_snippet kvs = JStr s
          \<and> blocks ! n = format_block (Suc n) (format_value w title)
                (format_value w (item_url kvs)) (textwrap_fill w (shorten (collapse s)) 92))"
proof -
  from compact_table_list [OF assms] obtain items where
    items: "results = JList items" "items \<noteq> []" by blast
  with assms(1) obtain blocks where
    blocks: "table_lines w (Suc 0) items = Inr blocks" and t: "t = str_join (lit ''\<newline>'') blocks"
    by (auto simp: compact_table_def split: sum.splits)
  from table_lines_blocks [OF blocks] have len: "length blocks = length items"
    and each: "\<And>n. n < length items \<Longrightarrow> render_item w (Suc n) (items ! n) = Inr (blocks ! n)"
    by simp_all
  have "\<exists>kvs title s.
          items ! n = JDict kvs \<and> item_title kvs = Inr title \<and> item_snippet kvs = JStr s
          \<and> blocks ! n = format_block (Suc n) (format_value w title)
                (format_value w (item_url kvs)) (textwrap_fill w (shorten (collapse s)) 92)"
    if "n < length items" for n
    using render_item_block [OF each [OF that]] .
  with items t len show ?thesis by blast
qed

text \<open>The lines of a block.\<close>

lemma str_nat_digits: "\<forall>c \<in> set (str_nat n). 48 \<le> c"
proof (induction n rule: str_nat.induct)
  case (1 n)
  show ?case
  proof (cases "n < 10")
    case True
    then show ?thesis by (subst str_nat.simps) (simp del: str_nat.simps)
  next
    case False
    note IH = 1 [OF False]
    from False IH show ?thesis by (subst str_nat.simps) (simp del: str_nat.simps)
  qed
qed

lemma str_nat_no_newline: "10 \<notin> set (str_nat n)"
proof
  assume "10 \<in> set (str_nat n)"
  with str_nat_digits [of n] have "(48::nat) \<le> 10" by blast
  then show False by simp
qed

lemma newlines_append: "newlines (xs @ ys) = newlines xs + newlines ys"
  by (simp add: newlines_def)

lemma newlines_zero: "newlines s = 0 \<longleftrightarrow> 10 \<notin> set s"
  by (induction s) (simp_all add: newlines_def)

lemma index_no_newline: "10 \<notin> set (rjust 2 (str_nat i))"
  using str_nat_no_newline [of i] by (simp del: str_nat.simps add: rjust_def)

lemma newlines_index: "newlines (rjust 2 (str_nat i)) = 0"
  unfolding newlines_zero by (rule index_no_newline)

lemma newlines_format_block:
  "newlines (format_block i title url wrapped)
     = 2 + newlines title + newlines url + newlines wrapped"
proof -
  have "newlines (lit ''. '') = 0" "newlines (lit ''\<newline>    '') = 1"
    by (simp_all add: newlines_def lit_def)
  then show ?thesis
    unfolding format_block_def newlines_append newlines_index by simp
qed

lemma line_count_format_block:
  "line_count (format_block i title url wrapped)
     = 3 + newlines title + newlines url + newlines wrapped"
  unfolding line_count_def newlines_format_block by simp

lemma three_lines:
  "line_count (format_block i title url wrapped) = 3
   \<longleftrightarrow> 10 \<notin> set title \<and> 10 \<notin> set url \<and> 10 \<notin> set wrapped"
  unfolding line_count_format_block newlines_zero [symmetric] by simp

lemma first_line_upto: "10 \<notin> set pre \<Longrightarrow> takeWhile (\<lambda>c. c \<noteq> 10) (pre @ 10 # rest) = pre"
  by (induction pre) auto

lemma first_line:
  assumes "10 \<notin> set title"
  shows "takeWhile (\<lambda>c. c \<noteq> 10) (format_block i title url wrapped)
     = rjust 2 (str_nat i) @ lit ''. '' @ title"
proof -
  have "10 \<notin> set (lit ''. '')" by (simp add: lit_def)
  with index_no_newline [of i] assms
  have pre: "10 \<notin> set (rjust 2 (str_nat i) @ lit ''. '' @ title)"
    by (simp del: str_nat.simps)
  have nl: "lit ''\<newline>    '' = 10 # lit ''    ''" by (simp add: lit_def)
  have "format_block i title url wrapped
      = (rjust 2 (str_nat i) @ lit ''. '' @ title)
        @ 10 # (lit ''    '' @ url @ lit ''\<newline>    '' @ wrapped)"
    unfolding format_block_def nl by (simp del: str_nat.simps)
  then show ?thesis by (simp only: first_line_upto [OF pre])
qed

lemma index_column: "rjust 2 (str_nat i) = (if i < 10 then 32 # str_nat i else str_nat i)"
proof (cases "i < 10")
  case True
  then have one: "str_nat i = [48 + i]" by (subst str_nat.simps) (simp del: str_nat.simps)
  have "rjust 2 [48 + i] = 32 # [48 + i]" by (simp add: rjust_def)
  with True one show ?thesis by (simp del: str_nat.simps)
next
  case False
  then have more: "str_nat i = str_nat (i div 10) @ [48 + i mod 10]"
    by (subst str_nat.simps) (simp del: str_nat.simps)
  have "str_nat (i div 10) \<noteq> []" by (subst str_nat.simps) (simp del: str_nat.simps)
  then obtain c cs where "str_nat (i div 10) = c # cs" unfolding neq_Nil_conv by blast
  with more have "2 \<le> length (str_nat i)" by (simp del: str_nat.simps)
  then have "rjust 2 (str_nat i) = str_nat i" by (simp del: str_nat.simps add: rjust_def)
  with False show ?thesis by (simp del: str_nat.simps)
qed

lemma main_notice:
  assumes "getenv w (lit ''BRAVE_SEARCH_API_KEY'') = Some k" and "k \<noteq> []"
    and "parse_args w = Inr a" and "fetch w (the_request k a) = Inr data"
    and "\<not> json a" and "table a" and "save a = None"
    and "extract_web_results data = Inr results" and "\<not> truthy results"
    and "stdout_ok w (lit ''No web results in response'')"
  shows "main w = ([Http_Get (the_request k a), Stdout (lit ''No web results in response'')], 0)"
proof -
  from assms(7) have "save a = None \<or> save a = Some []" by simp
  from main_not_saved [OF assms(1-4) this]
    render_table_only [OF assms(5,6), of w data] table_stage_notice [OF assms(8-10)]
  show ?thesis by simp
qed

text \<open>
  Claim C9, as the code has it. When the extracted results are empty (falsy) and the
  notice can be printed, table mode prints \<open>No web results in response\<close> and nothing
  else, and the run ends with exit code 0; with \<open>--table\<close> only and no \<open>--save\<close> the
  whole run of the program is the request and the notice. When the extracted results are
  not empty and \<open>compact_table\<close> returns, they are a list, and the table is one block
  per item, in order, joined by newlines; the block of the item at position \<open>n\<close>, counted
  from 0, starts with the index \<open>n + 1\<close>, right-aligned in two columns, a period, a space
  and the title, followed by the URL and the wrapped snippet, each on a new line after
  four spaces. A block has three lines exactly when the title, the URL and the wrapped
  snippet hold no newline; in general it has as many more lines as they hold newlines.
\<close>

theorem table_mode_blocks:
  "(extract_web_results data = Inr results \<and> \<not> truthy results
      \<and> stdout_ok w (lit ''No web results in response'') \<longrightarrow>
      table_stage w data = ([Stdout (lit ''No web results in response'')], 0))
   \<and> (getenv w (lit ''BRAVE_SEARCH_API_KEY'') = Some k \<and> k \<noteq> [] \<and> parse_args w = Inr a
        \<and> fetch w (the_request k a) = Inr data \<and> \<not> json a \<and> table a \<and> save a = None
        \<and> extract_web_results data = Inr results \<and> \<not> truthy results
        \<and> stdout_ok w (lit ''No web results in response'') \<longrightarrow>
        main w = ([Http_Get (the_request k a), Stdout (lit ''No web results in response'')], 0))
   \<and> (compact_table w results = Inr t \<and> truthy results \<longrightarrow>
        (\<exists>items blocks. results = JList items \<and> items \<noteq> []
           \<and> t = str_join (lit ''\<newline>'') blocks \<and> length blocks = length items
           \<and> (\<forall>n < length items. \<exists>kvs title s.
                items ! n = JDict kvs \<and> item_title kvs = Inr title \<and> item_snippet kvs = JStr s
                \<and> blocks ! n = format_block (Suc n) (format_value w title)
                      (format_value w (item_url kvs))
                      (textwrap_fill w (shorten (collapse s)) 92))))
   \<and> format_block i title url wrapped
       = rjust 2 (str_nat i) @ lit ''. '' @ title @ lit ''\<newline>    '' @ url
         @ lit ''\<newline>    '' @ wrapped
   \<and> rjust 2 (str_nat i) = (if i < 10 then 32 # str_nat i else str_nat i)
   \<and> (10 \<notin> set title \<longrightarrow>
        takeWhile (\<lambda>c. c \<noteq> 10) (format_block i title url wrapped)
          = rjust 2 (str_nat i) @ lit ''. '' @ title)
   \<and> line_count (format_block i title url wrapped)
       = 3 + newlines title + newlines url + newlines wrapped
   \<and> (line_count (format_block i title url wrapped) = 3
        \<longleftrightarrow> 10 \<notin> set title \<and> 10 \<notin> set url \<and> 10 \<notin> set wrapped)"
  apply (intro conjI)
         apply (rule impI, elim conjE, erule (2) table_stage_notice)
        apply (rule impI, elim conjE, erule (9) main_notice)
       apply (rule impI, elim conjE, erule (1) compact_table_blocks)
      apply (rule format_block_def)
     apply (rule index_column)
    apply (rule impI, erule first_line)
   apply (rule line_count_format_block)
  apply (rule three_lines)
  done

lemma empty_fetch: "fetch empty_world req = Inr (JDict [])"
  by (simp add: fetch_def raise_for_status_def empty_world_def mock_response_def)

lemma extract_empty: "extract_web_results (JDict []) = Inr (JList [])"
  by (simp add: extract_web_results_def results_or_empty_def dict_get_default_def py_or_def)

text \<open>
  On the document \<open>{}\<close> the run of \<open>--q test --table\<close> is the request and the notice,
  with exit code 0; the block of the mock item has three lines, the first of which is
  \<open>" 1. T"\<close>.
\<close>

theorem table_mode_blocks_witness:
  "table_stage empty_world (JDict []) = ([Stdout (lit ''No web results in response'')], 0)
   \<and> main empty_world =
       ([Http_Get (the_request (lit ''secret'') (defaults\<lparr>q := lit ''test'', table := True\<rparr>)),
         Stdout (lit ''No web results in response'')], 0)
   \<and> compact_table mock_world (JList [mock_item])
       = Inr (format_block 1 (lit ''T'') (lit ''http://x'') (lit ''d''))
   \<and> format_block 1 (lit ''T'') (lit ''http://x'') (lit ''d'')
       = lit '' 1. T\<newline>    http://x\<newline>    d''
   \<and> takeWhile (\<lambda>c. c \<noteq> 10) (format_block 1 (lit ''T'') (lit ''http://x'') (lit ''d''))
       = lit '' 1. T''
   \<and> line_count (format_block 1 (lit ''T'') (lit ''http://x'') (lit ''d'')) = 3"
proof -
  let ?a = "defaults\<lparr>q := lit ''test'', table := True\<rparr>"
  let ?notice = "lit ''No web results in response''"
  note T = table_mode_blocks [of "JDict []" "JList []" empty_world "lit ''secret''" ?a
      "lit '' 1. T\<newline>    http://x\<newline>    d''" 1 "lit ''T''" "lit ''http://x''" "lit ''d''"]
  note T1 = conjunct1 [OF T]
  note T2 = conjunct1 [OF conjunct2 [OF T]]
  note T6 = conjunct1 [OF conjunct2 [OF conjunct2 [OF conjunct2 [OF conjunct2 [OF conjunct2 [OF T]]]]]]
  note T8 = conjunct2 [OF conjunct2 [OF conjunct2 [OF conjunct2 [OF conjunct2 [OF conjunct2 [OF conjunct2 [OF T]]]]]]]
  have k: "getenv empty_world (lit ''BRAVE_SEARCH_API_KEY'') = Some (lit ''secret'')"
    by (simp add: empty_world_def mock_world_def)
  have p: "parse_args empty_world = Inr ?a"
    by (simp add: parse_args_def ambiguous_def separator_def resolve_def take_action_def
        store_def get_value_def check_value_def store_true_def option_strings_def
        mock_world_def empty_world_def defaults_def lit_def)
  have ok: "stdout_ok empty_world ?notice"
    by (simp add: empty_world_def mock_world_def utf8_encodable_def lit_def)
  have falsy: "\<not> truthy (JList [])" by simp
  have h1: "extract_web_results (JDict []) = Inr (JList []) \<and> \<not> truthy (JList [])
      \<and> stdout_ok empty_world ?notice"
    by (intro conjI) (rule extract_empty falsy ok)+
  note stage = mp [OF T1 h1]
  have flags: "\<not> json ?a" "table ?a" "save ?a = None" by (simp_all add: defaults_def)
  have h2: "getenv empty_world (lit ''BRAVE_SEARCH_API_KEY'') = Some (lit ''secret'')
      \<and> lit ''secret'' \<noteq> [] \<and> parse_args empty_world = Inr ?a
      \<and> fetch empty_world (the_request (lit ''secret'') ?a) = Inr (JDict [])
      \<and> \<not> json ?a \<and> table ?a \<and> save ?a = None
      \<and> extract_web_results (JDict []) = Inr (JList []) \<and> \<not> truthy (JList [])
      \<and> stdout_ok empty_world ?notice"
    by (intro conjI) (rule k secret_nonempty p empty_fetch flags extract_empty falsy ok)+
  note run = mp [OF T2 h2]
  have shape: "format_block 1 (lit ''T'') (lit ''http://x'') (lit ''d'')
      = lit '' 1. T\<newline>    http://x\<newline>    d''"
    by (simp add: format_block_def rjust_def lit_def)
  have table: "compact_table mock_world (JList [mock_item])
      = Inr (format_block 1 (lit ''T'') (lit ''http://x'') (lit ''d''))"
    unfolding shape by (rule mock_compact_table)
  have no_nl: "10 \<notin> set (lit ''T'')" "10 \<notin> set (lit ''http://x'')" "10 \<notin> set (lit ''d'')"
    by (simp_all add: lit_def)
  have pad: "rjust 2 (str_nat 1) @ lit ''. '' @ lit ''T'' = lit '' 1. T''"
    by (simp add: rjust_def lit_def)
  have first: "takeWhile (\<lambda>c. c \<noteq> 10) (format_block 1 (lit ''T'') (lit ''http://x'') (lit ''d''))
      = lit '' 1. T''"
    using mp [OF T6 no_nl(1)] unfolding pad .
  have h8: "10 \<notin> set (lit ''T'') \<and> 10 \<notin> set (lit ''http://x'') \<and> 10 \<notin> set (lit ''d'')"
    by (intro conjI) (rule no_nl)+
  note three = iffD2 [OF T8 h8]
  from stage run table shape first three show ?thesis by (intro conjI)
qed

text \<open>
  The claim as it was stated fails on an item whose snippet is one word of 100
  characters: \<open>textwrap.fill\<close> breaks the word after 92 characters, and the block of the
  item has four lines.
\<close>

theorem table_mode_blocks_counterexample:
  "compact_table mock_world (JList [described_item wide_word])
     = Inr (lit '' 1. T\<newline>    http://x\<newline>    '' @ replicate 92 120 @ lit ''\<newline>''
            @ replicate 8 120)
   \<and> line_count (lit '' 1. T\<newline>    http://x\<newline>    '' @ replicate 92 120 @ lit ''\<newline>''
        @ replicate 8 120) = 4"
proof -
  have ne: "wide_word \<noteq> []" by (simp add: wide_word_def)
  have sh: "shorten (collapse wide_word) = replicate 100 120"
    unfolding collapse_wide_word by (simp add: shorten_def wide_word_def)
  have fill: "simple_fill (replicate 100 120) 92
      = replicate 92 120 @ lit ''\<newline>'' @ replicate 8 120"
    by (simp add: simple_fill_def lit_def)
  have item: "render_item mock_world (Suc 0) (described_item wide_word)
      = Inr (lit '' 1. T\<newline>    http://x\<newline>    '' @ replicate 92 120 @ lit ''\<newline>''
             @ replicate 8 120)"
    unfolding render_described_item [OF ne] sh mock_fill fill
    by (simp add: format_block_def rjust_def lit_def)
  have table: "compact_table mock_world (JList [described_item wide_word])
      = Inr (lit '' 1. T\<newline>    http://x\<newline>    '' @ replicate 92 120 @ lit ''\<newline>''
             @ replicate 8 120)"
    by (simp add: compact_table_def item)
  have lines: "line_count (lit '' 1. T\<newline>    http://x\<newline>    '' @ replicate 92 120
        @ lit ''\<newline>'' @ replicate 8 120) = 4"
    by (simp add: line_count_def newlines_def lit_def)
  from table lines show ?thesis by (rule conjI)
qed

end
